theory Spec2Isabelle
  imports Main "HOL-Library.Monad_Syntax"
begin

section \<open>Values, external objects and the message object\<close>

text \<open>
  The development embeds \<^verbatim>\<open>efb_telegram_master/message.py\<close>: the class
  \<^verbatim>\<open>ETMMsg\<close> with its lazy media resolver (\<^verbatim>\<open>_load_file\<close> and the
  property accessors), the classifier \<^verbatim>\<open>put_telegram_file\<close> and the pickling
  protocol (\<^verbatim>\<open>__getstate__\<close>, \<^verbatim>\<open>pickle\<close>, \<^verbatim>\<open>unpickle\<close>).

  Exceptions are values: a function that can raise returns \<open>error + result\<close>.
  \<open>AttributeError\<close> is Python's own (an attribute read on \<^verbatim>\<open>None\<close> or on an
  object that lacks it); \<open>ExternalFailure\<close> stands for any exception raised inside an
  external collaborator (remote client, transcoder, image library, helper module).
\<close>

datatype error = AttributeError | ExternalFailure

text \<open>The enumerations of the framework and of \<^verbatim>\<open>msg_type.py\<close>; only the
  members the source names are told apart.\<close>

datatype ChatType = CT_User | CT_Group | CT_System | CT_Unknown

datatype MsgType = MT_Text | MT_Image | MT_Audio | MT_File | MT_Video | MT_Sticker
  | MT_Animation | MT_Unsupported

datatype TGMsgType = TG_Text | TG_Audio | TG_Document | TG_Photo | TG_Sticker
  | TG_AnimatedSticker | TG_Video | TG_Voice | TG_VideoNote | TG_Animation | TG_Other

text \<open>Modelled from the spec: the chat reference \<^verbatim>\<open>ETMChat\<close> (declared in
  \<^verbatim>\<open>chat.py\<close>, which is not among the sources) is the identity tuple (network id,
  chat id, optional group-member id) together with the two attributes the source reads,
  \<^verbatim>\<open>is_self\<close> and \<^verbatim>\<open>chat_type\<close>. \<open>oid\<close> is the identity of the Python object
  (what \<^verbatim>\<open>is\<close> compares).\<close>

record ETMChat =
  module_id :: string
  chat_uid :: string
  member_id :: "string option"
  is_self :: bool
  chat_type :: ChatType
  oid :: nat

text \<open>A temporary file object (\<^verbatim>\<open>tempfile.NamedTemporaryFile\<close>): its name, the bytes
  it holds, the read position and whether it was closed.\<close>

record tmpfile =
  fname :: string
  fcontent :: string
  fpos :: nat
  fclosed :: bool

text \<open>Python values as they occur in attribute dictionaries and in the chat and author
  fields (which hold a chat object, or its string key right after unpickling).\<close>

datatype pyval = VNone | VBool bool | VStr string | VFile tmpfile | VChat ETMChat
  | VTGType TGMsgType | VMsgType MsgType

text \<open>The message object. \<open>p_file\<close>, \<open>p_path\<close>, \<open>p_filename\<close> and \<open>initialized\<close> are the
  private attributes \<^verbatim>\<open>__file\<close>, \<^verbatim>\<open>__path\<close>, \<^verbatim>\<open>__filename\<close> and
  \<^verbatim>\<open>__initialized\<close>; \<open>msg_type\<close> is the attribute \<^verbatim>\<open>type\<close>; \<open>deliver_to\<close> holds
  \<^verbatim>\<open>deliver_to.channel_id\<close> (\<open>None\<close> when \<^verbatim>\<open>deliver_to\<close> is \<^verbatim>\<open>None\<close>);
  \<open>type_telegram\<close> is \<open>None\<close> as long as the attribute was never assigned.
  \<open>d_file\<close>, \<open>d_path\<close> and \<open>d_filename\<close> are the entries \<^verbatim>\<open>file\<close>, \<^verbatim>\<open>path\<close> and
  \<^verbatim>\<open>filename\<close> of the instance dictionary itself (\<open>None\<close>: no such entry). The
  constructor creates none; \<^verbatim>\<open>from_efbmsg\<close> copies them from the dictionary of a plain
  framework message (\<^verbatim>\<open>target.__dict__.update(source.__dict__)\<close>, line 182). The
  properties of lines 175--177 shadow them, so no accessor reads or writes them, but they
  are part of the state that is pickled.\<close>

record ETMMsg =
  file_id :: "string option"
  mime :: "string option"
  msg_type :: MsgType
  type_telegram :: "TGMsgType option"
  chat :: pyval
  author :: pyval
  deliver_to :: "string option"
  p_file :: "tmpfile option"
  p_path :: "string option"
  p_filename :: "string option"
  initialized :: bool
  d_file :: "pyval option"
  d_path :: "pyval option"
  d_filename :: "pyval option"

text \<open>Truth value of an \<^verbatim>\<open>Optional[str]\<close>: \<^verbatim>\<open>None\<close> and the empty string are false.\<close>

definition truthy :: "string option \<Rightarrow> bool" where
  "truthy x = (case x of None \<Rightarrow> False | Some s \<Rightarrow> s \<noteq> [])"

text \<open>\<^verbatim>\<open>x or y\<close> for an optional string \<open>x\<close> and a string \<open>y\<close>.\<close>

definition py_or :: "string option \<Rightarrow> string \<Rightarrow> string" where
  "py_or x y = (case x of None \<Rightarrow> y | Some s \<Rightarrow> if s = [] then y else s)"

text \<open>\<^verbatim>\<open>os.path.basename\<close> on a POSIX path: what follows the last slash.\<close>

definition basename :: "string \<Rightarrow> string" where
  "basename p = rev (takeWhile (\<lambda>c. c \<noteq> CHR ''/'') (rev p))"

section \<open>External collaborators\<close>

text \<open>
  The collaborators are parameters. An \<open>env\<close> fixes what each of them answers:
  \<^item> \<open>bot_get_file fid\<close>: the path the network reports for a content handle
    (\<^verbatim>\<open>bot.get_file(fid).file_path\<close>), \<open>None\<close> when the request raises;
  \<^item> \<open>download fid\<close>: the payload \<^verbatim>\<open>file_meta.download\<close> writes, \<open>None\<close> when it raises;
  \<^item> \<open>splitext_ext\<close>, \<open>guess_type\<close>, \<open>guess_extension\<close>:
    \<^verbatim>\<open>os.path.splitext(p)[1]\<close>, \<^verbatim>\<open>mimetypes.guess_type(p)[0]\<close>,
    \<^verbatim>\<open>mimetypes.guess_extension(t)\<close>;
  \<^item> \<open>magic_from_file\<close>: the MIME sniffed from the content, in text form, \<open>None\<close> when
    sniffing raises;
  \<^item> \<open>video_width\<close>: \<^verbatim>\<open>VideoFileClip(name).size[0]\<close>, \<open>None\<close> when decoding raises;
  \<^item> \<open>ffmpeg args input\<close>: what the launched transcoder leaves in its output file,
    \<open>None\<close> when the launch raises (the exit status is not read by the source);
  \<^item> \<open>write_gif\<close>, \<open>to_png\<close>: the re-encoded content, \<open>None\<close> when the library raises;
  \<^item> \<open>convert_tgs_to_gif\<close>: the helper of \<^verbatim>\<open>utils\<close>; \<open>Some gif\<close> when it returns
    \<^verbatim>\<open>True\<close> having written \<open>gif\<close>, \<open>None\<close> when it returns \<^verbatim>\<open>False\<close>;
  \<^item> \<open>tmp_prefix n\<close>: directory and random stem of the \<open>n\<close>-th temporary file;
  \<^item> \<open>efb_load_path path obj\<close>: what the framework's \<^verbatim>\<open>EFBMsg.__setstate__\<close> does to
    the object once it has read a true \<^verbatim>\<open>self.path\<close> (it tries to load the file from that
    path); it may raise.
  The \<open>world\<close> is what the calls change: the log of external calls made so far and the
  number of temporary files created.
\<close>

record env =
  bot_get_file :: "string \<Rightarrow> string option"
  download :: "string \<Rightarrow> string option"
  splitext_ext :: "string \<Rightarrow> string"
  guess_type :: "string \<Rightarrow> string option"
  guess_extension :: "string \<Rightarrow> string option"
  magic_from_file :: "string \<Rightarrow> string option"
  video_width :: "string \<Rightarrow> nat option"
  ffmpeg :: "string list \<Rightarrow> string \<Rightarrow> string option"
  write_gif :: "string \<Rightarrow> string option"
  to_png :: "string \<Rightarrow> string option"
  convert_tgs_to_gif :: "string \<Rightarrow> string option"
  tmp_prefix :: "nat \<Rightarrow> string"
  efb_load_path :: "string \<Rightarrow> ETMMsg \<Rightarrow> error + ETMMsg"

datatype event =
    BotGetFile string
  | Download string
  | Ffmpeg "string list"
  | WriteGif string string
  | ImageToPng string string
  | TgsToGif string string

record world =
  events :: "event list"
  tmp_count :: nat

definition emit :: "event \<Rightarrow> world \<Rightarrow> world" where
  "emit e w = w\<lparr>events := events w @ [e]\<rparr>"

text \<open>\<^verbatim>\<open>tempfile.NamedTemporaryFile(suffix=...)\<close>; a suffix \<^verbatim>\<open>None\<close> is no suffix.\<close>

definition NamedTemporaryFile :: "env \<Rightarrow> world \<Rightarrow> string option \<Rightarrow> tmpfile \<times> world" where
  "NamedTemporaryFile e w suffix =
     (\<lparr>fname = tmp_prefix e (tmp_count w) @ (case suffix of None \<Rightarrow> [] | Some s \<Rightarrow> s),
       fcontent = [], fpos = 0, fclosed = False\<rparr>,
      w\<lparr>tmp_count := Suc (tmp_count w)\<rparr>)"

text \<open>The number of payload downloads recorded in a log.\<close>

definition downloads :: "world \<Rightarrow> nat" where
  "downloads w = length (filter (\<lambda>e. case e of Download _ \<Rightarrow> True | _ \<Rightarrow> False) (events w))"

section \<open>The lazy media resolver\<close>

text \<open>Lines 76--81 of \<^verbatim>\<open>_load_file\<close>: suffix of the temporary file and first guess of
  the MIME type.\<close>

definition ext_and_mime :: "env \<Rightarrow> ETMMsg \<Rightarrow> string \<Rightarrow> string option \<times> string option" where
  "ext_and_mime e m file_path =
     (if \<not> truthy (mime m)
      then (Some (splitext_ext e file_path), guess_type e file_path)
      else (case mime m of
              None \<Rightarrow> (None, None)
            | Some t \<Rightarrow> (guess_extension e t, Some t)))"

text \<open>Lines 73--93: request, download into a temporary file, rewind, final MIME, base
  file, path and filename.\<close>

definition fetch :: "env \<Rightarrow> world \<Rightarrow> ETMMsg \<Rightarrow> string \<Rightarrow> error + (tmpfile \<times> ETMMsg \<times> world)" where
  "fetch e w m fid =
     (case bot_get_file e fid of
        None \<Rightarrow> Inl ExternalFailure
      | Some file_path \<Rightarrow>
          (let w1 = emit (BotGetFile fid) w;
               (ext, mime0) = ext_and_mime e m file_path;
               (file0, w2) = NamedTemporaryFile e w1 ext
           in case download e fid of
                None \<Rightarrow> Inl ExternalFailure
              | Some payload \<Rightarrow>
                  (let w3 = emit (Download fid) w2;
                       file = file0\<lparr>fcontent := payload, fpos := 0\<rparr>
                   in case (if truthy mime0 then mime0 else magic_from_file e payload) of
                        None \<Rightarrow> Inl ExternalFailure
                      | Some mime1 \<Rightarrow>
                          Inr (file,
                               m\<lparr>mime := Some mime1,
                                 p_file := Some file,
                                 p_path := Some (fname file),
                                 p_filename := Some (py_or (p_filename m) (basename (fname file)))\<rparr>,
                               w3))))"

text \<open>Lines 96--115, the animation branch.\<close>

definition convert_animation :: "env \<Rightarrow> world \<Rightarrow> ETMMsg \<Rightarrow> tmpfile \<Rightarrow> error + (ETMMsg \<times> world)" where
  "convert_animation e w m file =
     (case deliver_to m of
        None \<Rightarrow> Inl AttributeError
      | Some channel_id \<Rightarrow>
          (let (gif_file, w1) = NamedTemporaryFile e w (Some ''.gif'')
           in case video_width e (fcontent file) of
                None \<Rightarrow> Inl ExternalFailure
              | Some width \<Rightarrow>
                  (let args = [''ffmpeg'', ''-y'', ''-i'', fname file, ''-vf'', ''scale=600:-2'',
                               fname gif_file];
                       (out, w2) =
                         (if channel_id = ''blueset.wechat'' \<and> width > 600
                          then (ffmpeg e args (fcontent file), emit (Ffmpeg args) w1)
                          else (write_gif e (fcontent file),
                                emit (WriteGif (fname file) (fname gif_file)) w1))
                   in case out of
                        None \<Rightarrow> Inl ExternalFailure
                      | Some gif \<Rightarrow>
                          (let gif_file1 = gif_file\<lparr>fcontent := gif, fpos := 0\<rparr>
                           in Inr (m\<lparr>p_file := Some gif_file1,
                                     p_path := Some (fname gif_file1),
                                     p_filename := Some (py_or (p_filename m) (basename (fname gif_file1))),
                                     mime := Some ''image/gif''\<rparr>,
                                   w2)))))"

text \<open>Lines 117--124, the static sticker branch.\<close>

definition convert_sticker :: "env \<Rightarrow> world \<Rightarrow> ETMMsg \<Rightarrow> tmpfile \<Rightarrow> error + (ETMMsg \<times> world)" where
  "convert_sticker e w m file =
     (let (out_file, w1) = NamedTemporaryFile e w (Some ''.png'')
      in case to_png e (fcontent file) of
           None \<Rightarrow> Inl ExternalFailure
         | Some png \<Rightarrow>
             (let out_file1 = out_file\<lparr>fcontent := png, fpos := 0\<rparr>
              in Inr (m\<lparr>mime := Some ''image/png'',
                        p_filename := Some (py_or (p_filename m) (basename (fname file)) @ ''.png''),
                        p_file := Some out_file1,
                        p_path := Some (fname out_file1)\<rparr>,
                      emit (ImageToPng (fname file) (fname out_file)) w1)))"

text \<open>Lines 126--140, the animated (vector) sticker branch. The converter reads the
  downloaded file; on failure the target file is closed, the downloaded file is rewound
  and takes its place.\<close>

definition convert_animated_sticker ::
  "env \<Rightarrow> world \<Rightarrow> ETMMsg \<Rightarrow> tmpfile \<Rightarrow> error + (ETMMsg \<times> world)" where
  "convert_animated_sticker e w m file =
     (let (out_file, w1) = NamedTemporaryFile e w (Some ''.gif'');
          w2 = emit (TgsToGif (fname file) (fname out_file)) w1;
          file_read = file\<lparr>fpos := length (fcontent file)\<rparr>
      in case convert_tgs_to_gif e (fcontent file) of
           Some gif \<Rightarrow>
             (let out_file1 = out_file\<lparr>fcontent := gif, fpos := 0\<rparr>
              in Inr (m\<lparr>mime := Some ''image/gif'',
                        p_filename := Some (py_or (p_filename m) (basename (fname file)) @ ''.gif''),
                        p_file := Some out_file1,
                        p_path := Some (fname out_file1)\<rparr>,
                      w2))
         | None \<Rightarrow>
             (let out_file1 = file_read\<lparr>fpos := 0\<rparr>
              in Inr (m\<lparr>mime := Some ''application/json'',
                        p_filename := Some (py_or (p_filename m) (basename (fname file)) @ ''.json''),
                        p_file := Some out_file1,
                        p_path := Some (fname out_file1)\<rparr>,
                      w2)))"

text \<open>Lines 95--140: the branch chosen by the Telegram message type.\<close>

definition normalize :: "env \<Rightarrow> world \<Rightarrow> ETMMsg \<Rightarrow> tmpfile \<Rightarrow> error + (ETMMsg \<times> world)" where
  "normalize e w m file =
     (case type_telegram m of
        None \<Rightarrow> Inl AttributeError
      | Some t \<Rightarrow>
          if t = TG_Animation then convert_animation e w m file
          else if t = TG_Sticker then convert_sticker e w m file
          else if t = TG_AnimatedSticker then convert_animated_sticker e w m file
          else Inr (m, w))"

text \<open>\<^verbatim>\<open>_load_file\<close>. The flag is set on the last line, so an exception leaves it unset.\<close>

definition load_file :: "env \<Rightarrow> world \<Rightarrow> ETMMsg \<Rightarrow> error + (ETMMsg \<times> world)" where
  "load_file e w m =
     (if truthy (file_id m)
      then (case file_id m of
              None \<Rightarrow> Inr (m\<lparr>initialized := True\<rparr>, w)
            | Some fid \<Rightarrow>
                (case fetch e w m fid of
                   Inl err \<Rightarrow> Inl err
                 | Inr (file, m1, w1) \<Rightarrow>
                     (case normalize e w1 m1 file of
                        Inl err \<Rightarrow> Inl err
                      | Inr (m2, w2) \<Rightarrow> Inr (m2\<lparr>initialized := True\<rparr>, w2))))
      else Inr (m\<lparr>initialized := True\<rparr>, w))"

text \<open>The property accessors. A getter returns the value read, the message and the
  world as they are after the call.\<close>

definition get_file :: "env \<Rightarrow> world \<Rightarrow> ETMMsg \<Rightarrow> error + (tmpfile option \<times> ETMMsg \<times> world)" where
  "get_file e w m =
     (if \<not> initialized m
      then (case load_file e w m of
              Inl err \<Rightarrow> Inl err
            | Inr (m1, w1) \<Rightarrow> Inr (p_file m1, m1, w1))
      else Inr (p_file m, m, w))"

definition set_file :: "tmpfile option \<Rightarrow> ETMMsg \<Rightarrow> ETMMsg" where
  "set_file v m = m\<lparr>initialized := True, p_file := v\<rparr>"

definition get_path :: "env \<Rightarrow> world \<Rightarrow> ETMMsg \<Rightarrow> error + (string option \<times> ETMMsg \<times> world)" where
  "get_path e w m =
     (if \<not> initialized m
      then (case load_file e w m of
              Inl err \<Rightarrow> Inl err
            | Inr (m1, w1) \<Rightarrow> Inr (p_path m1, m1, w1))
      else Inr (p_path m, m, w))"

definition set_path :: "string option \<Rightarrow> ETMMsg \<Rightarrow> ETMMsg" where
  "set_path v m = m\<lparr>initialized := True, p_path := v\<rparr>"

definition get_filename :: "env \<Rightarrow> world \<Rightarrow> ETMMsg \<Rightarrow> error + (string option \<times> ETMMsg \<times> world)" where
  "get_filename e w m =
     (if \<not> initialized m
      then (case load_file e w m of
              Inl err \<Rightarrow> Inl err
            | Inr (m1, w1) \<Rightarrow> Inr (p_filename m1, m1, w1))
      else Inr (p_filename m, m, w))"

definition set_filename :: "string option \<Rightarrow> ETMMsg \<Rightarrow> ETMMsg" where
  "set_filename v m = m\<lparr>p_filename := v\<rparr>"

text \<open>A caller that performs a sequence of reads, each on the message and the world the
  previous read left. \<open>stored\<close> is what a getter finds in the object without resolving.\<close>

datatype getter = Get_file | Get_path | Get_filename

datatype reading = R_file "tmpfile option" | R_path "string option" | R_filename "string option"

definition stored :: "getter \<Rightarrow> ETMMsg \<Rightarrow> reading" where
  "stored g m = (case g of Get_file \<Rightarrow> R_file (p_file m)
                  | Get_path \<Rightarrow> R_path (p_path m)
                  | Get_filename \<Rightarrow> R_filename (p_filename m))"

definition read_prop :: "env \<Rightarrow> getter \<Rightarrow> world \<Rightarrow> ETMMsg \<Rightarrow> error + (reading \<times> ETMMsg \<times> world)" where
  "read_prop e g w m =
     (case g of
        Get_file \<Rightarrow> map_sum id (\<lambda>(v, m1, w1). (R_file v, m1, w1)) (get_file e w m)
      | Get_path \<Rightarrow> map_sum id (\<lambda>(v, m1, w1). (R_path v, m1, w1)) (get_path e w m)
      | Get_filename \<Rightarrow> map_sum id (\<lambda>(v, m1, w1). (R_filename v, m1, w1)) (get_filename e w m))"

fun read_all :: "env \<Rightarrow> getter list \<Rightarrow> world \<Rightarrow> ETMMsg \<Rightarrow> error + (reading list \<times> ETMMsg \<times> world)" where
  "read_all e [] w m = Inr ([], m, w)"
| "read_all e (g # gs) w m =
     (case read_prop e g w m of
        Inl err \<Rightarrow> Inl err
      | Inr (v, m1, w1) \<Rightarrow>
          (case read_all e gs w1 m1 of
             Inl err \<Rightarrow> Inl err
           | Inr (vs, m2, w2) \<Rightarrow> Inr (v # vs, m2, w2)))"

section \<open>The classifier\<close>

text \<open>The raw Telegram message, as far as \<^verbatim>\<open>put_telegram_file\<close> reads it: an optional
  object per media attribute (absent attributes read as \<^verbatim>\<open>None\<close>), and the list of
  photo sizes. These objects are always true in a condition. The classes of the Telegram
  library differ in what they expose: \<^verbatim>\<open>Animation\<close>, \<^verbatim>\<open>Document\<close>, \<^verbatim>\<open>Video\<close>,
  \<^verbatim>\<open>Voice\<close> and \<^verbatim>\<open>Audio\<close> have \<^verbatim>\<open>file_id\<close> and \<^verbatim>\<open>mime_type\<close> (\<^verbatim>\<open>None\<close> when
  the network declared no type); \<^verbatim>\<open>VideoNote\<close>, \<^verbatim>\<open>Sticker\<close> and \<^verbatim>\<open>PhotoSize\<close> have
  \<^verbatim>\<open>file_id\<close> but no attribute \<^verbatim>\<open>mime_type\<close>.\<close>

record attachment =
  att_file_id :: string
  att_mime_type :: "string option"

record plain_file =
  pf_file_id :: string

record tg_audio =
  aud_file_id :: string
  aud_mime_type :: "string option"
  aud_title :: "string option"
  aud_performer :: "string option"

record tg_message =
  animation :: "attachment option"
  document :: "attachment option"
  video :: "attachment option"
  voice :: "attachment option"
  video_note :: "plain_file option"
  audio :: "tg_audio option"
  sticker :: "plain_file option"
  photo :: "plain_file list"

text \<open>\<^verbatim>\<open>str(x)\<close> of an optional string inside an f-string.\<close>

definition py_str :: "string option \<Rightarrow> string" where
  "py_str x = (case x of None \<Rightarrow> ''None'' | Some s \<Rightarrow> s)"

text \<open>What \<^verbatim>\<open>getattr(message, tg_media_type, None)\<close> can hold in the loop of line 201,
  and the two attribute reads of lines 205 and 206. Reading \<^verbatim>\<open>mime_type\<close> on a video
  note raises.\<close>

datatype common_file = CF_Attachment attachment | CF_VideoNote plain_file

definition file_id_of :: "common_file \<Rightarrow> string" where
  "file_id_of a = (case a of CF_Attachment x \<Rightarrow> att_file_id x | CF_VideoNote v \<Rightarrow> pf_file_id v)"

definition mime_type_of :: "common_file \<Rightarrow> error + string option" where
  "mime_type_of a =
     (case a of CF_Attachment x \<Rightarrow> Inr (att_mime_type x) | CF_VideoNote v \<Rightarrow> Inl AttributeError)"

text \<open>The tuple the \<^verbatim>\<open>for\<close> loop of line 201 runs over, and the loop itself: the first
  attribute that holds an object ends it.\<close>

definition common_media :: "(tg_message \<Rightarrow> common_file option) list" where
  "common_media =
     [map_option CF_Attachment \<circ> animation, map_option CF_Attachment \<circ> document,
      map_option CF_Attachment \<circ> video, map_option CF_Attachment \<circ> voice,
      map_option CF_VideoNote \<circ> video_note]"

fun first_attachment :: "(tg_message \<Rightarrow> common_file option) list \<Rightarrow> tg_message \<Rightarrow> common_file option" where
  "first_attachment [] message = None"
| "first_attachment (g # gs) message =
     (case g message of Some a \<Rightarrow> Some a | None \<Rightarrow> first_attachment gs message)"

text \<open>Lines 209--224, taken when the loop found nothing. \<open>t\<close> is the Telegram type stored
  on line 196.\<close>

definition specific_media :: "env \<Rightarrow> TGMsgType \<Rightarrow> ETMMsg \<Rightarrow> tg_message \<Rightarrow> error + ETMMsg" where
  "specific_media e t m message =
     (if t = TG_Audio then
        (case audio message of
           None \<Rightarrow> Inl AttributeError
         | Some a \<Rightarrow>
             (case aud_mime_type a of
                None \<Rightarrow> Inl AttributeError
              | Some mt \<Rightarrow>
                  Inr (set_filename
                         (Some (py_str (aud_title a) @ '' - '' @ py_str (aud_performer a)
                                @ py_str (guess_extension e mt)))
                         (m\<lparr>file_id := Some (aud_file_id a), mime := Some mt\<rparr>))))
      else if t = TG_Sticker then
        (case sticker message of
           None \<Rightarrow> Inl AttributeError
         | Some s \<Rightarrow> Inr (m\<lparr>file_id := Some (pf_file_id s), mime := Some ''image/webp''\<rparr>))
      else if t = TG_AnimatedSticker then
        (case sticker message of
           None \<Rightarrow> Inl AttributeError
         | Some s \<Rightarrow> Inr (m\<lparr>file_id := Some (pf_file_id s), mime := Some ''application/json+tgs'',
                             msg_type := MT_Animation\<rparr>))
      else if photo message \<noteq> [] then
        Inr (m\<lparr>file_id := Some (pf_file_id (last (photo message))), mime := Some ''image/jpeg''\<rparr>)
      else Inr m)"

text \<open>\<^verbatim>\<open>put_telegram_file\<close>. \<open>get_msg_type\<close> is the function of \<^verbatim>\<open>msg_type.py\<close>,
  a parameter here. In the loop the handle is written (line 205) before the MIME is read
  (line 206); when that read raises, the exception leaves \<^verbatim>\<open>put_telegram_file\<close>.\<close>

definition put_telegram_file ::
  "env \<Rightarrow> (tg_message \<Rightarrow> TGMsgType) \<Rightarrow> ETMMsg \<Rightarrow> tg_message \<Rightarrow> error + ETMMsg" where
  "put_telegram_file e get_msg_type m message =
     (let m0 = m\<lparr>type_telegram := Some (get_msg_type message)\<rparr>
      in case first_attachment common_media message of
           Some a \<Rightarrow>
             (let m1 = m0\<lparr>file_id := Some (file_id_of a)\<rparr>
              in case mime_type_of a of
                   Inl err \<Rightarrow> Inl err
                 | Inr mt \<Rightarrow> Inr (m1\<lparr>mime := mt\<rparr>))
         | None \<Rightarrow> specific_media e (get_msg_type message) m0 message)"

section \<open>The message reference codec\<close>

text \<open>An attribute dictionary. The pickled bytes of a message are identified with the
  state dictionary \<^verbatim>\<open>pickle.dumps\<close> encodes and \<^verbatim>\<open>pickle.loads\<close> decodes.\<close>

type_synonym state = "string \<rightharpoonup> pyval"

definition opt_str :: "string option \<Rightarrow> pyval" where
  "opt_str x = (case x of None \<Rightarrow> VNone | Some s \<Rightarrow> VStr s)"

definition opt_file :: "tmpfile option \<Rightarrow> pyval" where
  "opt_file x = (case x of None \<Rightarrow> VNone | Some f \<Rightarrow> VFile f)"

text \<open>The instance dictionary of a message: every attribute under the name Python
  stores it by (private names mangled), and the entries \<^verbatim>\<open>file\<close>, \<^verbatim>\<open>path\<close> and
  \<^verbatim>\<open>filename\<close> where \<^verbatim>\<open>from_efbmsg\<close> put them. The base class \<^verbatim>\<open>EFBMsg\<close> belongs
  to the framework; its \<^verbatim>\<open>__getstate__\<close> hands out a copy of this dictionary.\<close>

definition instance_dict :: "ETMMsg \<Rightarrow> state" where
  "instance_dict m =
     (\<lambda>k. if k = ''file_id'' then Some (opt_str (file_id m))
          else if k = ''mime'' then Some (opt_str (mime m))
          else if k = ''type'' then Some (VMsgType (msg_type m))
          else if k = ''type_telegram'' then map_option VTGType (type_telegram m)
          else if k = ''chat'' then Some (chat m)
          else if k = ''author'' then Some (author m)
          else if k = ''deliver_to'' then Some (opt_str (deliver_to m))
          else if k = ''_ETMMsg__file'' then Some (opt_file (p_file m))
          else if k = ''_ETMMsg__path'' then Some (opt_str (p_path m))
          else if k = ''_ETMMsg__filename'' then Some (opt_str (p_filename m))
          else if k = ''_ETMMsg__initialized'' then Some (VBool (initialized m))
          else if k = ''file'' then d_file m
          else if k = ''path'' then d_path m
          else if k = ''filename'' then d_filename m
          else None)"

text \<open>\<^verbatim>\<open>if state.get(k, None) is not None: del state[k]\<close>\<close>

definition del_if_set :: "string \<Rightarrow> state \<Rightarrow> state" where
  "del_if_set k st = (case st k of None \<Rightarrow> st | Some VNone \<Rightarrow> st | Some _ \<Rightarrow> st(k := None))"

text \<open>\<^verbatim>\<open>if state.get(k, None) is not None: state[k] = utils.chat_id_to_str(chat=state[k])\<close>.
  The helper is a parameter; handed anything but a chat object it raises.\<close>

definition key_if_set :: "(ETMChat \<Rightarrow> string) \<Rightarrow> string \<Rightarrow> state \<Rightarrow> error + state" where
  "key_if_set chat_id_to_str k st =
     (case st k of
        None \<Rightarrow> Inr st
      | Some VNone \<Rightarrow> Inr st
      | Some (VChat c) \<Rightarrow> Inr (st(k \<mapsto> VStr (chat_id_to_str c)))
      | Some _ \<Rightarrow> Inl ExternalFailure)"

text \<open>Lines 45--59 of \<^verbatim>\<open>__getstate__\<close>, on the state the base class returned.\<close>

definition strip_state :: "(ETMChat \<Rightarrow> string) \<Rightarrow> state \<Rightarrow> error + state" where
  "strip_state chat_id_to_str st =
     (case key_if_set chat_id_to_str ''chat''
             (del_if_set ''_ETMMsg__path''
                (del_if_set ''_ETMMsg__file''
                   (del_if_set ''path''
                      (del_if_set ''file'' st)))) of
        Inl err \<Rightarrow> Inl err
      | Inr st1 \<Rightarrow> key_if_set chat_id_to_str ''author'' st1)"

definition getstate :: "(ETMChat \<Rightarrow> string) \<Rightarrow> ETMMsg \<Rightarrow> error + state" where
  "getstate chat_id_to_str m = strip_state chat_id_to_str (instance_dict m)"

text \<open>The object whose instance dictionary is a given state: what \<^verbatim>\<open>pickle.loads\<close>
  has built, without running \<^verbatim>\<open>__init__\<close>, once the framework's \<^verbatim>\<open>__setstate__\<close> has
  updated the dictionary of the new object with the state. Attributes with a class-level
  default (\<^verbatim>\<open>file_id\<close> and the three private media attributes) read as \<^verbatim>\<open>None\<close> when
  the state lacks them. A state that lacks another attribute, or holds a value of another
  type in one, is not the state of a constructed message; the result is then \<open>None\<close>.\<close>

definition str_attr :: "state \<Rightarrow> string \<Rightarrow> string option option" where
  "str_attr st k =
     (case st k of
        None \<Rightarrow> Some None
      | Some VNone \<Rightarrow> Some None
      | Some (VStr s) \<Rightarrow> Some (Some s)
      | Some _ \<Rightarrow> None)"

definition file_attr :: "state \<Rightarrow> string \<Rightarrow> tmpfile option option" where
  "file_attr st k =
     (case st k of
        None \<Rightarrow> Some None
      | Some VNone \<Rightarrow> Some None
      | Some (VFile f) \<Rightarrow> Some (Some f)
      | Some _ \<Rightarrow> None)"

definition dict_obj :: "state \<Rightarrow> ETMMsg option" where
  "dict_obj st = do {
     fid \<leftarrow> str_attr st ''file_id'';
     mt \<leftarrow> (case st ''mime'' of None \<Rightarrow> None | Some _ \<Rightarrow> str_attr st ''mime'');
     ty \<leftarrow> (case st ''type'' of Some (VMsgType t) \<Rightarrow> Some t | _ \<Rightarrow> None);
     tt \<leftarrow> (case st ''type_telegram'' of
              None \<Rightarrow> Some None
            | Some (VTGType t) \<Rightarrow> Some (Some t)
            | Some _ \<Rightarrow> None);
     c \<leftarrow> st ''chat'';
     a \<leftarrow> st ''author'';
     d \<leftarrow> (case st ''deliver_to'' of None \<Rightarrow> None | Some _ \<Rightarrow> str_attr st ''deliver_to'');
     f \<leftarrow> file_attr st ''_ETMMsg__file'';
     p \<leftarrow> str_attr st ''_ETMMsg__path'';
     n \<leftarrow> str_attr st ''_ETMMsg__filename'';
     i \<leftarrow> (case st ''_ETMMsg__initialized'' of Some (VBool b) \<Rightarrow> Some b | _ \<Rightarrow> None);
     Some \<lparr>file_id = fid, mime = mt, msg_type = ty, type_telegram = tt, chat = c, author = a,
           deliver_to = d, p_file = f, p_path = p, p_filename = n, initialized = i,
           d_file = st ''file'', d_path = st ''path'', d_filename = st ''filename''\<rparr>
   }"

text \<open>\<^verbatim>\<open>__setstate__\<close> (lines 61--62) hands the state to the framework's
  \<^verbatim>\<open>EFBMsg.__setstate__\<close>, which updates the dictionary and then reads \<^verbatim>\<open>self.path\<close>.
  On this class that read is the property \<^verbatim>\<open>get_path\<close>: on an object whose flag is unset
  it runs \<^verbatim>\<open>_load_file\<close>. When the path read is true the framework goes on with
  \<open>efb_load_path\<close>.\<close>

definition setstate :: "env \<Rightarrow> world \<Rightarrow> state \<Rightarrow> error + (ETMMsg \<times> world)" where
  "setstate e w st =
     (case dict_obj st of
        None \<Rightarrow> Inl ExternalFailure
      | Some obj \<Rightarrow>
          (case get_path e w obj of
             Inl err \<Rightarrow> Inl err
           | Inr (p, obj1, w1) \<Rightarrow>
               (case p of
                  None \<Rightarrow> Inr (obj1, w1)
                | Some path \<Rightarrow>
                    if path = [] then Inr (obj1, w1)
                    else (case efb_load_path e path obj1 of
                            Inl err \<Rightarrow> Inl err
                          | Inr obj2 \<Rightarrow> Inr (obj2, w1)))))"

text \<open>Modelled from the spec: the task queue of the database manager (\<^verbatim>\<open>db.py\<close> is not
  among the sources). \<^verbatim>\<open>add_task\<close> hands a task to the queue and runs nothing;
  \<open>executed\<close> lists the chats whose metadata refresh has actually run.\<close>

datatype task = SetSlaveChatInfo pyval

record db =
  tasks :: "task list"
  executed :: "pyval list"

definition add_task :: "task \<Rightarrow> db \<Rightarrow> db" where
  "add_task t d = d\<lparr>tasks := tasks d @ [t]\<rparr>"

text \<open>\<^verbatim>\<open>x != y\<close> on the chat and author fields. \<open>chat_eq\<close> is the equality of chat
  objects (\<^verbatim>\<open>__eq__\<close> of the chat class), a parameter.\<close>

definition py_ne :: "(ETMChat \<Rightarrow> ETMChat \<Rightarrow> bool) \<Rightarrow> pyval \<Rightarrow> pyval \<Rightarrow> bool" where
  "py_ne chat_eq x y =
     (case (x, y) of (VChat a, VChat b) \<Rightarrow> \<not> chat_eq a b | _ \<Rightarrow> x \<noteq> y)"

text \<open>The condition of line 66; \<^verbatim>\<open>self.author.is_self\<close> is read only when the first
  conjunct holds, and raises unless the author is a chat object.\<close>

definition author_task_due :: "(ETMChat \<Rightarrow> ETMChat \<Rightarrow> bool) \<Rightarrow> ETMMsg \<Rightarrow> error + bool" where
  "author_task_due chat_eq m =
     (if py_ne chat_eq (chat m) (author m)
      then (case author m of VChat a \<Rightarrow> Inr (\<not> is_self a) | _ \<Rightarrow> Inl AttributeError)
      else Inr False)"

text \<open>\<^verbatim>\<open>pickle\<close>: the tasks are queued first, then the message is encoded.\<close>

definition pickle ::
  "(ETMChat \<Rightarrow> string) \<Rightarrow> (ETMChat \<Rightarrow> ETMChat \<Rightarrow> bool) \<Rightarrow> db \<Rightarrow> ETMMsg \<Rightarrow> error + (state \<times> db)" where
  "pickle chat_id_to_str chat_eq d m =
     (let d1 = add_task (SetSlaveChatInfo (chat m)) d
      in case author_task_due chat_eq m of
           Inl err \<Rightarrow> Inl err
         | Inr due \<Rightarrow>
             (let d2 = (if due then add_task (SetSlaveChatInfo (author m)) d1 else d1)
              in case getstate chat_id_to_str m of
                   Inl err \<Rightarrow> Inl err
                 | Inr data \<Rightarrow> Inr (data, d2)))"

text \<open>The chat directory (\<^verbatim>\<open>ChatObjectCacheManager\<close>), a parameter: \<open>answer\<close> gives what
  \<^verbatim>\<open>get_chat\<close> returns for a query after a given history of queries (\<open>None\<close> is
  Python's \<^verbatim>\<open>None\<close>); \<open>calls\<close> is the history so far.\<close>

record dir_call =
  q_module :: string
  q_uid :: string
  q_parent :: "string option"
  q_build_dummy :: bool

record chat_manager =
  answer :: "dir_call list \<Rightarrow> dir_call \<Rightarrow> ETMChat option"
  calls :: "dir_call list"

definition get_chat :: "chat_manager \<Rightarrow> dir_call \<Rightarrow> ETMChat option \<times> chat_manager" where
  "get_chat cm q = (answer cm (calls cm) q, cm\<lparr>calls := calls cm @ [q]\<rparr>)"

definition chat_val :: "ETMChat option \<Rightarrow> pyval" where
  "chat_val x = (case x of None \<Rightarrow> VNone | Some c \<Rightarrow> VChat c)"

text \<open>\<^verbatim>\<open>utils.chat_id_str_to_id\<close> applied to a field: the helper is a parameter that
  splits a key into the pair the source unpacks, or raises (\<open>None\<close>); a field that holds
  no string makes it raise.\<close>

definition split_key :: "(string \<Rightarrow> (string \<times> string) option) \<Rightarrow> pyval \<Rightarrow> error + (string \<times> string)" where
  "split_key chat_id_str_to_id v =
     (case v of
        VStr s \<Rightarrow> (case chat_id_str_to_id s of None \<Rightarrow> Inl ExternalFailure | Some p \<Rightarrow> Inr p)
      | _ \<Rightarrow> Inl ExternalFailure)"

text \<open>Lines 231--237 of \<^verbatim>\<open>unpickle\<close>, once both keys are split.\<close>

definition resolve_refs ::
  "chat_manager \<Rightarrow> ETMMsg \<Rightarrow> string \<times> string \<Rightarrow> string \<times> string \<Rightarrow> ETMMsg \<times> chat_manager" where
  "resolve_refs cm obj ck ak =
     (case (ck, ak) of ((c_module, c_id), (a_module, a_id)) \<Rightarrow>
        (let (c, cm1) = get_chat cm \<lparr>q_module = c_module, q_uid = c_id, q_parent = None,
                                     q_build_dummy = True\<rparr>;
             obj1 = obj\<lparr>chat := chat_val c\<rparr>
         in if a_module = c_module \<and> a_id = c_id then (obj1\<lparr>author := chat obj1\<rparr>, cm1)
            else if (case c of None \<Rightarrow> False | Some ch \<Rightarrow> chat_type ch = CT_Group) then
              (let (a, cm2) = get_chat cm1 \<lparr>q_module = a_module, q_uid = a_id, q_parent = Some c_id,
                                            q_build_dummy = True\<rparr>
               in (obj1\<lparr>author := chat_val a\<rparr>, cm2))
            else
              (let (a, cm2) = get_chat cm1 \<lparr>q_module = a_module, q_uid = a_id, q_parent = None,
                                            q_build_dummy = True\<rparr>
               in (obj1\<lparr>author := chat_val a\<rparr>, cm2))))"

text \<open>\<^verbatim>\<open>unpickle\<close>. The result carries the message, the directory and the world as they
  are after the call.\<close>

definition unpickle ::
  "env \<Rightarrow> world \<Rightarrow> (string \<Rightarrow> (string \<times> string) option) \<Rightarrow> state \<Rightarrow> chat_manager
     \<Rightarrow> error + (ETMMsg \<times> chat_manager \<times> world)" where
  "unpickle e w chat_id_str_to_id data cm =
     (case setstate e w data of
        Inl err \<Rightarrow> Inl err
      | Inr (obj, w1) \<Rightarrow>
          (case split_key chat_id_str_to_id (chat obj) of
             Inl err \<Rightarrow> Inl err
           | Inr ck \<Rightarrow>
               (case split_key chat_id_str_to_id (author obj) of
                  Inl err \<Rightarrow> Inl err
                | Inr ak \<Rightarrow>
                    (case resolve_refs cm obj ck ak of (m2, cm2) \<Rightarrow> Inr (m2, cm2, w1)))))"

section \<open>Construction and example data\<close>

text \<open>\<^verbatim>\<open>__init__\<close>: the framework's constructor leaves every attribute at its empty
  default (the message type is \<^verbatim>\<open>MsgType.Unsupported\<close>); line 40 then clears the flag.\<close>

definition ETMMsg_init :: ETMMsg where
  "ETMMsg_init =
     \<lparr>file_id = None, mime = None, msg_type = MT_Unsupported, type_telegram = None,
      chat = VNone, author = VNone, deliver_to = None, p_file = None, p_path = None,
      p_filename = None, initialized = False, d_file = None, d_path = None, d_filename = None\<rparr>"

text \<open>Modelled from the spec: the two key helpers of \<^verbatim>\<open>utils.py\<close> (not among the
  sources) and the equality of chat references. The key is
  \<^verbatim>\<open><network-id>.<chat-id>[.<member-id>]\<close>; the inverse splits at the separator and
  yields the pair \<^verbatim>\<open>unpickle\<close> unpacks, so a key of any other shape makes the
  unpacking raise; two references are the same identity when their components are
  equal. The theorems below hold for any helpers; these instances serve the examples.\<close>

definition chat_id_to_str :: "ETMChat \<Rightarrow> string" where
  "chat_id_to_str c =
     module_id c @ ''.'' @ chat_uid c @ (case member_id c of None \<Rightarrow> [] | Some g \<Rightarrow> ''.'' @ g)"

definition chat_id_str_to_id :: "string \<Rightarrow> (string \<times> string) option" where
  "chat_id_str_to_id s =
     (let a = takeWhile (\<lambda>c. c \<noteq> CHR ''.'') s;
          b = drop (Suc (length a)) s
      in if length a < length s \<and> CHR ''.'' \<notin> set b then Some (a, b) else None)"

definition chat_eq :: "ETMChat \<Rightarrow> ETMChat \<Rightarrow> bool" where
  "chat_eq a b \<longleftrightarrow>
     module_id a = module_id b \<and> chat_uid a = chat_uid b \<and> member_id a = member_id b"

definition ex_env :: env where
  "ex_env =
     \<lparr>bot_get_file = (\<lambda>fid. if fid = ''F1'' then Some ''stickers/file_7.tgs'' else None),
      download = (\<lambda>fid. if fid = ''F1'' then Some ''PAYLOAD'' else None),
      splitext_ext = (\<lambda>p. ''.tgs''),
      guess_type = (\<lambda>p. None),
      guess_extension = (\<lambda>t. if t = ''video/mp4'' then Some ''.mp4'' else None),
      magic_from_file = (\<lambda>c. Some ''application/gzip''),
      video_width = (\<lambda>c. Some 800),
      ffmpeg = (\<lambda>args c. Some ''SCALED''),
      write_gif = (\<lambda>c. Some ''GIF''),
      to_png = (\<lambda>c. Some ''PNG''),
      convert_tgs_to_gif = (\<lambda>c. None),
      tmp_prefix = (\<lambda>n. ''/tmp/tmp'' @ replicate (Suc n) CHR ''a''),
      efb_load_path = (\<lambda>path obj. Inr obj)\<rparr>"

definition ex_world :: world where
  "ex_world = \<lparr>events = [], tmp_count = 0\<rparr>"

definition ex_chat :: ETMChat where
  "ex_chat = \<lparr>module_id = ''a'', chat_uid = ''1'', member_id = None, is_self = False,
              chat_type = CT_Group, oid = 10\<rparr>"

definition ex_author :: ETMChat where
  "ex_author = \<lparr>module_id = ''a'', chat_uid = ''2'', member_id = None, is_self = False,
                chat_type = CT_User, oid = 11\<rparr>"

definition ex_new :: ETMMsg where
  "ex_new = ETMMsg_init\<lparr>chat := VChat ex_chat, author := VChat ex_author,
                        deliver_to := Some ''blueset.wechat''\<rparr>"

definition ex_sticker_update :: tg_message where
  "ex_sticker_update =
     \<lparr>animation = None, document = None, video = None, voice = None, video_note = None,
      audio = None, sticker = Some \<lparr>pf_file_id = ''F1''\<rparr>, photo = []\<rparr>"

definition ex_tgs_msg :: ETMMsg where
  "ex_tgs_msg = ex_new\<lparr>type_telegram := Some TG_AnimatedSticker, file_id := Some ''F1'',
                       mime := Some ''application/json+tgs'', msg_type := MT_Animation\<rparr>"

definition ex_tgs_file :: tmpfile where
  "ex_tgs_file = \<lparr>fname = ''/tmp/tmpa'', fcontent = ''PAYLOAD'', fpos = 0, fclosed = False\<rparr>"

definition ex_tgs_resolved :: ETMMsg where
  "ex_tgs_resolved = ex_tgs_msg\<lparr>mime := Some ''application/json'', p_file := Some ex_tgs_file,
     p_path := Some ''/tmp/tmpa'', p_filename := Some ''tmpa.json'', initialized := True\<rparr>"

definition ex_tgs_world :: world where
  "ex_tgs_world =
     \<lparr>events = [BotGetFile ''F1'', Download ''F1'', TgsToGif ''/tmp/tmpa'' ''/tmp/tmpaa.gif''],
      tmp_count = 2\<rparr>"

definition ex_cm :: chat_manager where
  "ex_cm =
     \<lparr>answer = (\<lambda>hist q. Some \<lparr>module_id = q_module q, chat_uid = q_uid q, member_id = q_parent q,
                               is_self = False,
                               chat_type = (if q_uid q = ''1'' then CT_Group else CT_User),
                               oid = length hist\<rparr>),
      calls = []\<rparr>"

definition ex_db :: db where
  "ex_db = \<lparr>tasks = [], executed = []\<rparr>"

definition ex_mixed_update :: tg_message where
  "ex_mixed_update =
     \<lparr>animation = None,
      document = Some \<lparr>att_file_id = ''DOC'', att_mime_type = Some ''video/mp4''\<rparr>,
      video = Some \<lparr>att_file_id = ''VID'', att_mime_type = Some ''video/mp4''\<rparr>,
      voice = None, video_note = None,
      audio = Some \<lparr>aud_file_id = ''AUD'', aud_mime_type = Some ''audio/mpeg'',
                    aud_title = Some ''Song'', aud_performer = None\<rparr>,
      sticker = Some \<lparr>pf_file_id = ''F1''\<rparr>,
      photo = [\<lparr>pf_file_id = ''PIC''\<rparr>]\<rparr>"

definition ex_video_note_update :: tg_message where
  "ex_video_note_update =
     \<lparr>animation = None, document = None, video = None, voice = None,
      video_note = Some \<lparr>pf_file_id = ''NOTE''\<rparr>, audio = None, sticker = None, photo = []\<rparr>"


definition ex_loaded :: ETMMsg where
  "ex_loaded = ex_tgs_resolved\<lparr>chat := VStr ''a.1'', author := VStr ''a.2'',
                               p_file := None, p_path := None\<rparr>"




section \<open>Facts about the resolver\<close>

lemma load_file_no_handle:
  "\<not> truthy (file_id m) \<Longrightarrow> load_file e w m = Inr (m\<lparr>initialized := True\<rparr>, w)"
  by (simp add: load_file_def)

lemma load_file_initialized:
  "load_file e w m = Inr (m1, w1) \<Longrightarrow> initialized m1"
  by (auto simp: load_file_def split: if_splits option.splits sum.splits)

lemma get_file_initialized: "initialized m \<Longrightarrow> get_file e w m = Inr (p_file m, m, w)"
  by (simp add: get_file_def)

lemma get_path_initialized: "initialized m \<Longrightarrow> get_path e w m = Inr (p_path m, m, w)"
  by (simp add: get_path_def)

lemma get_filename_initialized: "initialized m \<Longrightarrow> get_filename e w m = Inr (p_filename m, m, w)"
  by (simp add: get_filename_def)

lemma read_prop_initialized:
  "initialized m \<Longrightarrow> read_prop e g w m = Inr (stored g m, m, w)"
  by (cases g)
     (simp_all add: read_prop_def stored_def get_file_initialized get_path_initialized
        get_filename_initialized)

lemma read_all_initialized:
  "initialized m \<Longrightarrow> read_all e gs w m = Inr (map (\<lambda>g. stored g m) gs, m, w)"
  by (induction gs) (simp_all add: read_prop_initialized)

lemma downloads_emit:
  "downloads (emit ev w) = (case ev of Download _ \<Rightarrow> Suc (downloads w) | _ \<Rightarrow> downloads w)"
  by (cases ev) (simp_all add: downloads_def emit_def)

lemma downloads_tmp_count: "downloads (w\<lparr>tmp_count := n\<rparr>) = downloads w"
  by (simp add: downloads_def)

lemma fetch_downloads:
  "fetch e w m fid = Inr (file, m1, w1) \<Longrightarrow> downloads w1 = Suc (downloads w)"
  by (auto simp: fetch_def Let_def NamedTemporaryFile_def downloads_emit downloads_tmp_count
           split: option.splits prod.splits if_splits)

lemma normalize_downloads:
  "normalize e w m file = Inr (m1, w1) \<Longrightarrow> downloads w1 = downloads w"
  by (auto simp: normalize_def convert_animation_def convert_sticker_def
        convert_animated_sticker_def Let_def NamedTemporaryFile_def downloads_emit
        downloads_tmp_count
      split: option.splits prod.splits if_splits)

lemma load_file_downloads:
  "truthy (file_id m) \<Longrightarrow> load_file e w m = Inr (m1, w1) \<Longrightarrow> downloads w1 = Suc (downloads w)"
  by (auto simp: load_file_def truthy_def fetch_downloads normalize_downloads
      split: option.splits sum.splits prod.splits if_splits)

lemma ex_tgs_load:
  "load_file ex_env ex_world ex_tgs_msg = Inr (ex_tgs_resolved, ex_tgs_world)"
  by (simp add: load_file_def fetch_def normalize_def convert_animated_sticker_def
      ext_and_mime_def NamedTemporaryFile_def emit_def truthy_def py_or_def basename_def
      Let_def numeral_2_eq_2 ex_env_def ex_world_def ex_tgs_msg_def ex_new_def ETMMsg_init_def ex_tgs_resolved_def
      ex_tgs_file_def ex_tgs_world_def)

section \<open>Resolution runs once\<close>





section \<open>Messages without a content handle\<close>

lemma initialized_idem: "initialized m \<Longrightarrow> m\<lparr>initialized := True\<rparr> = m"
  by (cases m) simp

lemma get_file_no_handle:
  "\<not> truthy (file_id m) \<Longrightarrow> get_file e w m = Inr (p_file m, m\<lparr>initialized := True\<rparr>, w)"
  by (cases "initialized m") (simp_all add: get_file_def load_file_no_handle initialized_idem)

lemma get_path_no_handle:
  "\<not> truthy (file_id m) \<Longrightarrow> get_path e w m = Inr (p_path m, m\<lparr>initialized := True\<rparr>, w)"
  by (cases "initialized m") (simp_all add: get_path_def load_file_no_handle initialized_idem)

lemma get_filename_no_handle:
  "\<not> truthy (file_id m) \<Longrightarrow>
     get_filename e w m = Inr (p_filename m, m\<lparr>initialized := True\<rparr>, w)"
  by (cases "initialized m") (simp_all add: get_filename_def load_file_no_handle initialized_idem)

lemma read_prop_no_handle:
  "\<not> truthy (file_id m) \<Longrightarrow>
     read_prop e g w m = Inr (stored g m, m\<lparr>initialized := True\<rparr>, w)"
  by (cases g)
     (simp_all add: read_prop_def stored_def get_file_no_handle get_path_no_handle
        get_filename_no_handle)

lemma read_all_no_handle:
  assumes "\<not> truthy (file_id m)"
  shows "read_all e gs w m
    = Inr (map (\<lambda>g. stored g m) gs, if gs = [] then m else m\<lparr>initialized := True\<rparr>, w)"
proof (cases gs)
  case Nil
  then show ?thesis by simp
next
  case (Cons g gs')
  have "read_all e gs' w (m\<lparr>initialized := True\<rparr>)
      = Inr (map (\<lambda>g. stored g (m\<lparr>initialized := True\<rparr>)) gs', m\<lparr>initialized := True\<rparr>, w)"
    by (rule read_all_initialized) simp
  with Cons assms show ?thesis
    by (simp add: read_prop_no_handle stored_def)
qed

text \<open>
  Claim C5, amended. For a message whose content handle is absent (\<^verbatim>\<open>None\<close> or empty),
  each of \<^verbatim>\<open>get_file()\<close>, \<^verbatim>\<open>get_path()\<close> and \<^verbatim>\<open>get_filename()\<close> returns the value
  stored in its own private attribute, which is \<^verbatim>\<open>None\<close> unless a setter stored a value
  there; it sets the flag and leaves the world as it was: no request, no download. The
  same holds along every sequence \<open>gs\<close> of such calls.
\<close>

theorem no_handle_reads_nothing:
  assumes "\<not> truthy (file_id m)"
  shows "get_file e w m = Inr (p_file m, m\<lparr>initialized := True\<rparr>, w)
    \<and> get_path e w m = Inr (p_path m, m\<lparr>initialized := True\<rparr>, w)
    \<and> get_filename e w m = Inr (p_filename m, m\<lparr>initialized := True\<rparr>, w)
    \<and> read_all e gs w m
        = Inr (map (\<lambda>g. stored g m) gs, if gs = [] then m else m\<lparr>initialized := True\<rparr>, w)"
  using assms get_file_no_handle [of m e w] get_path_no_handle [of m e w]
    get_filename_no_handle [of m e w] read_all_no_handle [of m e gs w]
  by simp

theorem no_handle_reads_nothing_witness:
  "\<not> truthy (file_id ETMMsg_init)
   \<and> get_file ex_env ex_world ETMMsg_init = Inr (None, ETMMsg_init\<lparr>initialized := True\<rparr>, ex_world)
   \<and> get_path ex_env ex_world ETMMsg_init = Inr (None, ETMMsg_init\<lparr>initialized := True\<rparr>, ex_world)
   \<and> get_filename ex_env ex_world ETMMsg_init
       = Inr (None, ETMMsg_init\<lparr>initialized := True\<rparr>, ex_world)
   \<and> read_all ex_env [Get_filename, Get_file, Get_path] ex_world ETMMsg_init
       = Inr ([R_filename None, R_file None, R_path None], ETMMsg_init\<lparr>initialized := True\<rparr>,
              ex_world)
   \<and> \<not> truthy (file_id (set_filename (Some ''a.txt'') ETMMsg_init))
   \<and> get_file ex_env ex_world (set_filename (Some ''a.txt'') ETMMsg_init)
       = Inr (None, set_filename (Some ''a.txt'') ETMMsg_init\<lparr>initialized := True\<rparr>, ex_world)
   \<and> get_filename ex_env ex_world (set_filename (Some ''a.txt'') ETMMsg_init)
       = Inr (Some ''a.txt'', set_filename (Some ''a.txt'') ETMMsg_init\<lparr>initialized := True\<rparr>,
              ex_world)"
proof -
  have h: "\<not> truthy (file_id ETMMsg_init)"
    and h': "\<not> truthy (file_id (set_filename (Some ''a.txt'') ETMMsg_init))"
    by (simp_all add: truthy_def ETMMsg_init_def set_filename_def)
  have v: "p_file ETMMsg_init = None" "p_path ETMMsg_init = None" "p_filename ETMMsg_init = None"
    "p_file (set_filename (Some ''a.txt'') ETMMsg_init) = None"
    "p_filename (set_filename (Some ''a.txt'') ETMMsg_init) = Some ''a.txt''"
    by (simp_all add: ETMMsg_init_def set_filename_def)
  from no_handle_reads_nothing [OF h, of ex_env ex_world "[Get_filename, Get_file, Get_path]"]
    no_handle_reads_nothing [OF h', of ex_env ex_world "[]"] h h' v
  show ?thesis by (simp add: stored_def)
qed

text \<open>Claim C5 as worded, for every message without a content handle, fails after an
  override: a freshly constructed message has no content handle, and once
  \<^verbatim>\<open>set_path("/tmp/x")\<close> ran, \<^verbatim>\<open>get_path()\<close> returns that path, not \<^verbatim>\<open>None\<close>.\<close>

theorem no_handle_override_counterexample:
  "file_id (set_path (Some ''/tmp/x'') ETMMsg_init) = None
   \<and> get_path ex_env ex_world (set_path (Some ''/tmp/x'') ETMMsg_init)
       = Inr (Some ''/tmp/x'', set_path (Some ''/tmp/x'') ETMMsg_init, ex_world)"
  by (simp add: get_path_def set_path_def ETMMsg_init_def)

section \<open>Setters and the resolution flag\<close>

lemma read_prop_unresolved:
  "\<not> initialized m \<Longrightarrow>
     read_prop e g w m = map_sum id (\<lambda>(m1, w1). (stored g m1, m1, w1)) (load_file e w m)"
  by (cases g)
     (simp_all add: read_prop_def stored_def get_file_def get_path_def get_filename_def
        split: sum.splits)

text \<open>
  Claim C8. After \<^verbatim>\<open>set_path(p)\<close>, on any message, \<^verbatim>\<open>get_path()\<close> returns \<open>p\<close>; more
  generally every sequence \<open>gs\<close> of getter calls returns the stored values (\<open>p\<close> for each
  \<^verbatim>\<open>get_path()\<close>) and leaves the world untouched, so no download ever occurs.
  \<^verbatim>\<open>set_filename(v)\<close> does not change the flag: on a message whose flag is unset the
  next read of any property \<open>g\<close> still runs \<^verbatim>\<open>_load_file\<close>, and with a content handle
  present a read that succeeds has made exactly one download.
\<close>

theorem set_path_suppresses_resolution:
  "get_path e w (set_path p m) = Inr (p, set_path p m, w)
   \<and> read_all e gs w (set_path p m)
       = Inr (map (\<lambda>g. stored g (set_path p m)) gs, set_path p m, w)
   \<and> stored Get_path (set_path p m) = R_path p
   \<and> initialized (set_filename v m) = initialized m
   \<and> (\<not> initialized m \<longrightarrow>
        read_prop e g w (set_filename v m)
          = map_sum id (\<lambda>(m1, w1). (stored g m1, m1, w1)) (load_file e w (set_filename v m)))
   \<and> (\<not> initialized m \<and> truthy (file_id m) \<longrightarrow>
        (\<forall>r m1 w1. read_prop e g w (set_filename v m) = Inr (r, m1, w1)
           \<longrightarrow> downloads w1 = downloads w + 1))"
proof -
  have i: "initialized (set_path p m)" by (simp add: set_path_def)
  have a: "get_path e w (set_path p m) = Inr (p, set_path p m, w)"
    using get_path_initialized [OF i, of e w] by (simp add: set_path_def)
  have b: "read_all e gs w (set_path p m)
       = Inr (map (\<lambda>g. stored g (set_path p m)) gs, set_path p m, w)"
    by (rule read_all_initialized [OF i])
  have c: "stored Get_path (set_path p m) = R_path p"
    by (simp add: stored_def set_path_def)
  have d: "initialized (set_filename v m) = initialized m"
    by (simp add: set_filename_def)
  have f: "file_id (set_filename v m) = file_id m"
    by (simp add: set_filename_def)
  have r: "read_prop e g w (set_filename v m)
          = map_sum id (\<lambda>(m1, w1). (stored g m1, m1, w1)) (load_file e w (set_filename v m))"
    if "\<not> initialized m"
    using that read_prop_unresolved [of "set_filename v m" e g w] d by simp
  have g: "downloads w1 = downloads w + 1"
    if "\<not> initialized m" "truthy (file_id m)"
      "read_prop e g w (set_filename v m) = Inr (x, m1, w1)" for x m1 w1
  proof -
    from that(3) r [OF that(1)] have "load_file e w (set_filename v m) = Inr (m1, w1)"
      by (cases "load_file e w (set_filename v m)") auto
    with load_file_downloads [of "set_filename v m" e w m1 w1] that(2) f show ?thesis by simp
  qed
  from a b c d r g show ?thesis by blast
qed

theorem set_path_suppresses_resolution_witness:
  "get_path ex_env ex_world (set_path (Some ''/tmp/x'') ex_tgs_msg)
     = Inr (Some ''/tmp/x'', set_path (Some ''/tmp/x'') ex_tgs_msg, ex_world)
   \<and> read_all ex_env [Get_file, Get_path] ex_world (set_path (Some ''/tmp/x'') ex_tgs_msg)
     = Inr ([R_file None, R_path (Some ''/tmp/x'')], set_path (Some ''/tmp/x'') ex_tgs_msg, ex_world)
   \<and> \<not> initialized ex_tgs_msg \<and> truthy (file_id ex_tgs_msg)
   \<and> read_prop ex_env Get_path ex_world (set_filename (Some ''sticker'') ex_tgs_msg)
     = Inr (R_path (Some ''/tmp/tmpa''), ex_tgs_resolved\<lparr>p_filename := Some ''sticker.json''\<rparr>,
            ex_tgs_world)
   \<and> downloads ex_tgs_world = downloads ex_world + 1"
proof -
  have h1: "\<not> initialized ex_tgs_msg"
    by (simp add: ex_tgs_msg_def ex_new_def ETMMsg_init_def)
  have h2: "truthy (file_id ex_tgs_msg)"
    by (simp add: truthy_def ex_tgs_msg_def)
  have pf: "p_file ex_tgs_msg = None"
    by (simp add: ex_tgs_msg_def ex_new_def ETMMsg_init_def)
  have lf: "load_file ex_env ex_world (set_filename (Some ''sticker'') ex_tgs_msg)
      = Inr (ex_tgs_resolved\<lparr>p_filename := Some ''sticker.json''\<rparr>, ex_tgs_world)"
    by (simp add: set_filename_def load_file_def fetch_def normalize_def
      convert_animated_sticker_def ext_and_mime_def NamedTemporaryFile_def emit_def truthy_def
      py_or_def basename_def Let_def numeral_2_eq_2 ex_env_def ex_world_def ex_tgs_msg_def
      ex_new_def ETMMsg_init_def ex_tgs_resolved_def ex_tgs_file_def ex_tgs_world_def)
  note t = set_path_suppresses_resolution [of ex_env ex_world "Some ''/tmp/x''" ex_tgs_msg
      "[Get_file, Get_path]" "Some ''sticker''" Get_path]
  from t h1 have rp: "read_prop ex_env Get_path ex_world (set_filename (Some ''sticker'') ex_tgs_msg)
     = Inr (R_path (Some ''/tmp/tmpa''), ex_tgs_resolved\<lparr>p_filename := Some ''sticker.json''\<rparr>,
            ex_tgs_world)"
    by (simp add: lf stored_def ex_tgs_resolved_def)
  from t h1 h2 rp have "downloads ex_tgs_world = downloads ex_world + 1" by blast
  with t h1 h2 rp pf show ?thesis by (simp add: stored_def set_path_def)
qed

section \<open>The classifier and the common file family\<close>

lemma first_attachment_common:
  "first_attachment common_media message =
     (case animation message of Some a \<Rightarrow> Some (CF_Attachment a) | None \<Rightarrow>
      case document message of Some a \<Rightarrow> Some (CF_Attachment a) | None \<Rightarrow>
      case video message of Some a \<Rightarrow> Some (CF_Attachment a) | None \<Rightarrow>
      case voice message of Some a \<Rightarrow> Some (CF_Attachment a) | None \<Rightarrow>
        map_option CF_VideoNote (video_note message))"
  by (simp add: common_media_def split: option.splits)

text \<open>
  Claim C9, what the code does. The loop examines animation, document, video, voice and
  video-note in this order and stops at the first object present. When that object is an
  animation, document, video or voice attachment \<open>a\<close>, the result of
  \<^verbatim>\<open>put_telegram_file\<close> is the message with the Telegram type stored and the handle and
  declared MIME of \<open>a\<close> written: nothing in it depends on the audio, sticker or photo
  attributes, nor on the branch the Telegram type would select. When it is a video note,
  the read of its \<^verbatim>\<open>mime_type\<close> raises \<^verbatim>\<open>AttributeError\<close>: the fifth member of the family
  does not win as the claim says. The audio, sticker and photo checks
  (\<open>specific_media\<close>) decide the result only when the loop found nothing.
\<close>

theorem common_file_classification:
  "first_attachment common_media message =
     (case animation message of Some a \<Rightarrow> Some (CF_Attachment a) | None \<Rightarrow>
      case document message of Some a \<Rightarrow> Some (CF_Attachment a) | None \<Rightarrow>
      case video message of Some a \<Rightarrow> Some (CF_Attachment a) | None \<Rightarrow>
      case voice message of Some a \<Rightarrow> Some (CF_Attachment a) | None \<Rightarrow>
        map_option CF_VideoNote (video_note message))
   \<and> (\<forall>a. first_attachment common_media message = Some (CF_Attachment a) \<longrightarrow>
          put_telegram_file e get_msg_type m message
            = Inr (m\<lparr>type_telegram := Some (get_msg_type message),
                     file_id := Some (att_file_id a), mime := att_mime_type a\<rparr>))
   \<and> (\<forall>v. first_attachment common_media message = Some (CF_VideoNote v) \<longrightarrow>
          put_telegram_file e get_msg_type m message = Inl AttributeError)
   \<and> (first_attachment common_media message = None \<longrightarrow>
          put_telegram_file e get_msg_type m message
            = specific_media e (get_msg_type message)
                (m\<lparr>type_telegram := Some (get_msg_type message)\<rparr>) message)"
  by (simp add: first_attachment_common put_telegram_file_def Let_def file_id_of_def
      mime_type_of_def)

theorem common_file_classification_witness:
  "first_attachment common_media ex_mixed_update
     = Some (CF_Attachment \<lparr>att_file_id = ''DOC'', att_mime_type = Some ''video/mp4''\<rparr>)
   \<and> put_telegram_file ex_env (\<lambda>_. TG_Audio) ex_new ex_mixed_update
     = Inr (ex_new\<lparr>type_telegram := Some TG_Audio, file_id := Some ''DOC'',
                    mime := Some ''video/mp4''\<rparr>)
   \<and> first_attachment common_media ex_video_note_update
     = Some (CF_VideoNote \<lparr>pf_file_id = ''NOTE''\<rparr>)
   \<and> put_telegram_file ex_env (\<lambda>_. TG_VideoNote) ex_new ex_video_note_update = Inl AttributeError
   \<and> first_attachment common_media ex_sticker_update = None
   \<and> put_telegram_file ex_env (\<lambda>_. TG_AnimatedSticker) ex_new ex_sticker_update = Inr ex_tgs_msg"
proof -
  have h1: "first_attachment common_media ex_mixed_update
     = Some (CF_Attachment \<lparr>att_file_id = ''DOC'', att_mime_type = Some ''video/mp4''\<rparr>)"
    by (simp add: common_media_def ex_mixed_update_def)
  have h2: "first_attachment common_media ex_sticker_update = None"
    by (simp add: common_media_def ex_sticker_update_def)
  have h3: "first_attachment common_media ex_video_note_update
     = Some (CF_VideoNote \<lparr>pf_file_id = ''NOTE''\<rparr>)"
    by (simp add: common_media_def ex_video_note_update_def)
  have s: "specific_media ex_env TG_AnimatedSticker (ex_new\<lparr>type_telegram := Some TG_AnimatedSticker\<rparr>)
      ex_sticker_update = Inr ex_tgs_msg"
    by (simp add: specific_media_def ex_sticker_update_def ex_tgs_msg_def)
  from common_file_classification [of ex_mixed_update ex_env "\<lambda>_. TG_Audio" ex_new]
    common_file_classification [of ex_video_note_update ex_env "\<lambda>_. TG_VideoNote" ex_new]
    common_file_classification [of ex_sticker_update ex_env "\<lambda>_. TG_AnimatedSticker" ex_new]
    h1 h2 h3 s
  show ?thesis by simp
qed

section \<open>Facts about the state dictionary\<close>

lemma del_if_set_apply:
  "del_if_set k st k' =
     (if k' = k then (if st k = Some VNone then Some VNone else None) else st k')"
proof (cases "st k")
  case None
  then show ?thesis by (simp add: del_if_set_def)
next
  case (Some v)
  then show ?thesis by (cases v) (simp_all add: del_if_set_def)
qed

lemma key_if_set_apply:
  assumes "key_if_set f k st = Inr st'"
  shows "st' k' =
     (if k' = k then (case st k of Some (VChat c) \<Rightarrow> Some (VStr (f c)) | x \<Rightarrow> x) else st k')"
proof (cases "st k")
  case None
  with assms show ?thesis by (auto simp: key_if_set_def)
next
  case (Some v)
  with assms show ?thesis by (cases v) (auto simp: key_if_set_def)
qed

lemma strip_state_apply:
  assumes "strip_state f st = Inr st'"
  shows "st' k =
     (if k \<in> {''file'', ''path'', ''_ETMMsg__file'', ''_ETMMsg__path''}
      then (if st k = Some VNone then Some VNone else None)
      else if k \<in> {''chat'', ''author''}
      then (case st k of Some (VChat c) \<Rightarrow> Some (VStr (f c)) | x \<Rightarrow> x)
      else st k)"
proof -
  let ?s4 = "del_if_set ''_ETMMsg__path'' (del_if_set ''_ETMMsg__file''
               (del_if_set ''path'' (del_if_set ''file'' st)))"
  from assms obtain st5 where a: "key_if_set f ''chat'' ?s4 = Inr st5"
    and b: "key_if_set f ''author'' st5 = Inr st'"
    by (auto simp: strip_state_def split: sum.splits)
  show ?thesis
    unfolding key_if_set_apply [OF b] key_if_set_apply [OF a] del_if_set_apply
    by simp
qed

lemma strip_state_ok:
  assumes "st ''chat'' = Some (VChat c) \<or> st ''chat'' = Some VNone \<or> st ''chat'' = None"
    and "st ''author'' = Some (VChat a) \<or> st ''author'' = Some VNone \<or> st ''author'' = None"
  shows "\<exists>st'. strip_state f st = Inr st'"
proof -
  let ?s4 = "del_if_set ''_ETMMsg__path'' (del_if_set ''_ETMMsg__file''
               (del_if_set ''path'' (del_if_set ''file'' st)))"
  have c: "?s4 ''chat'' = st ''chat''" and a: "?s4 ''author'' = st ''author''"
    by (simp_all add: del_if_set_apply)
  from assms(1) c obtain st5 where k: "key_if_set f ''chat'' ?s4 = Inr st5"
    by (auto simp: key_if_set_def)
  from key_if_set_apply [OF k, of "''author''"] a have "st5 ''author'' = st ''author''"
    by simp
  with assms(2) obtain st' where "key_if_set f ''author'' st5 = Inr st'"
    by (auto simp: key_if_set_def)
  with k show ?thesis by (simp add: strip_state_def)
qed

section \<open>Metadata refresh tasks\<close>

lemma getstate_chats:
  "chat m = VChat c \<Longrightarrow> author m = VChat a \<Longrightarrow> \<exists>data. getstate k m = Inr data"
  unfolding getstate_def
  by (rule strip_state_ok [where c = c and a = a]) (simp_all add: instance_dict_def)

text \<open>
  Claim C7. For a message whose chat and author are chat objects, \<^verbatim>\<open>pickle\<close> succeeds
  and leaves a queue that is the old queue, then one refresh task for the chat, then a
  refresh task for the author exactly when the author compares unequal to the chat and is
  not flagged as self. Nothing is added to the refreshes that have run: the tasks are
  only queued.
\<close>

theorem pickle_enqueues_refresh_tasks:
  assumes "chat m = VChat c" and "author m = VChat a"
  shows "\<exists>data d1. pickle k chat_eq' d m = Inr (data, d1)
    \<and> getstate k m = Inr data
    \<and> tasks d1 = tasks d @ [SetSlaveChatInfo (VChat c)]
                  @ (if \<not> chat_eq' c a \<and> \<not> is_self a then [SetSlaveChatInfo (VChat a)] else [])
    \<and> executed d1 = executed d"
proof -
  from getstate_chats [OF assms] obtain data where g: "getstate k m = Inr data" ..
  have due: "author_task_due chat_eq' m = Inr (\<not> chat_eq' c a \<and> \<not> is_self a)"
    using assms by (simp add: author_task_due_def py_ne_def)
  show ?thesis
    using assms g due by (simp add: pickle_def Let_def add_task_def)
qed

theorem pickle_enqueues_refresh_tasks_witness:
  "chat ex_tgs_resolved = VChat ex_chat \<and> author ex_tgs_resolved = VChat ex_author
   \<and> (\<exists>data d1. pickle chat_id_to_str chat_eq ex_db ex_tgs_resolved = Inr (data, d1)
        \<and> tasks d1 = [SetSlaveChatInfo (VChat ex_chat), SetSlaveChatInfo (VChat ex_author)]
        \<and> executed d1 = [])
   \<and> (\<exists>data d1. pickle chat_id_to_str chat_eq ex_db (ex_tgs_resolved\<lparr>author := VChat ex_chat\<rparr>)
          = Inr (data, d1)
        \<and> tasks d1 = [SetSlaveChatInfo (VChat ex_chat)] \<and> executed d1 = [])"
proof -
  have h1: "chat ex_tgs_resolved = VChat ex_chat" and h2: "author ex_tgs_resolved = VChat ex_author"
    by (simp_all add: ex_tgs_resolved_def ex_tgs_msg_def ex_new_def)
  have h3: "chat (ex_tgs_resolved\<lparr>author := VChat ex_chat\<rparr>) = VChat ex_chat"
    and h4: "author (ex_tgs_resolved\<lparr>author := VChat ex_chat\<rparr>) = VChat ex_chat"
    using h1 by simp_all
  have e1: "\<not> chat_eq ex_chat ex_author \<and> \<not> is_self ex_author" and e2: "chat_eq ex_chat ex_chat"
    by (simp_all add: chat_eq_def ex_chat_def ex_author_def)
  from pickle_enqueues_refresh_tasks [OF h1 h2, of chat_id_to_str chat_eq ex_db]
    pickle_enqueues_refresh_tasks [OF h3 h4, of chat_id_to_str chat_eq ex_db] h1 h2 e1 e2
  show ?thesis by (simp add: ex_db_def) blast
qed

section \<open>What the encoded record holds\<close>


lemma ex_tgs_get_file:
  "get_file ex_env ex_world ex_tgs_msg = Inr (Some ex_tgs_file, ex_tgs_resolved, ex_tgs_world)"
  by (simp add: get_file_def ex_tgs_load)
     (simp add: ex_tgs_msg_def ex_new_def ETMMsg_init_def ex_tgs_resolved_def)





section \<open>Decoding and reference resolution\<close>

lemma dict_obj_instance_dict: "dict_obj (instance_dict m) = Some m"
  by (cases m)
     (simp add: dict_obj_def instance_dict_def str_attr_def file_attr_def opt_str_def
        opt_file_def split: option.splits)

lemma dict_obj_media:
  assumes "dict_obj st = Some obj"
  shows "st ''_ETMMsg__initialized'' = Some (VBool (initialized obj))"
    and "file_attr st ''_ETMMsg__file'' = Some (p_file obj)"
    and "str_attr st ''_ETMMsg__path'' = Some (p_path obj)"
  using assms
  by (auto simp: dict_obj_def bind_eq_Some_conv split: option.splits pyval.splits)

lemma setstate_resolved:
  assumes "dict_obj st = Some obj" and "initialized obj" and "p_path obj = None"
  shows "setstate e w st = Inr (obj, w)"
  using assms by (simp add: setstate_def get_path_initialized)

lemma setstate_dict_obj:
  assumes "setstate e w st = Inr (obj, w1)"
  shows "\<exists>obj0. dict_obj st = Some obj0"
  using assms by (auto simp: setstate_def split: option.splits)

text \<open>On a record whose flag is unset, decoding runs the resolver: the framework's read
  of \<^verbatim>\<open>self.path\<close> is the first read of a media property.\<close>

lemma setstate_unresolved:
  assumes "dict_obj st = Some obj" and "\<not> initialized obj"
  shows "setstate e w st =
     (case load_file e w obj of
        Inl err \<Rightarrow> Inl err
      | Inr (obj1, w1) \<Rightarrow>
          (case p_path obj1 of
             None \<Rightarrow> Inr (obj1, w1)
           | Some path \<Rightarrow>
               if path = [] then Inr (obj1, w1)
               else map_sum id (\<lambda>obj2. (obj2, w1)) (efb_load_path e path obj1)))"
  using assms
  by (simp add: setstate_def get_path_def split: sum.splits option.splits)

lemma resolve_refs_media:
  assumes "resolve_refs cm obj ck ak = (m2, cm2)"
  shows "initialized m2 = initialized obj" and "p_file m2 = p_file obj"
    and "p_path m2 = p_path obj" and "p_filename m2 = p_filename obj"
    and "file_id m2 = file_id obj"
  using assms
  by (auto simp: resolve_refs_def get_chat_def Let_def split: prod.splits if_splits)

lemma unpickle_media:
  assumes "unpickle e w parse data cm = Inr (m2, cm2, w2)"
  shows "\<exists>obj. setstate e w data = Inr (obj, w2) \<and> initialized m2 = initialized obj
    \<and> p_file m2 = p_file obj \<and> p_path m2 = p_path obj"
proof -
  from assms obtain obj ck ak where o: "setstate e w data = Inr (obj, w2)"
    and r: "resolve_refs cm obj ck ak = (m2, cm2)"
    by (auto simp: unpickle_def split: sum.splits prod.splits)
  from resolve_refs_media [OF r] o show ?thesis by simp
qed

lemma getstate_media_entries:
  assumes "getstate k m = Inr data"
  shows "data ''_ETMMsg__file'' = (if p_file m = None then Some VNone else None)"
    and "data ''_ETMMsg__path'' = (if p_path m = None then Some VNone else None)"
    and "data ''_ETMMsg__initialized'' = Some (VBool (initialized m))"
proof -
  from assms have s: "strip_state k (instance_dict m) = Inr data"
    by (simp add: getstate_def)
  show "data ''_ETMMsg__file'' = (if p_file m = None then Some VNone else None)"
    unfolding strip_state_apply [OF s]
    by (simp add: instance_dict_def opt_file_def split: option.splits)
  show "data ''_ETMMsg__path'' = (if p_path m = None then Some VNone else None)"
    unfolding strip_state_apply [OF s]
    by (simp add: instance_dict_def opt_str_def split: option.splits)
  show "data ''_ETMMsg__initialized'' = Some (VBool (initialized m))"
    unfolding strip_state_apply [OF s] by (simp add: instance_dict_def)
qed

lemma pickle_getstate:
  "pickle k chat_eq' d m = Inr (data, d1) \<Longrightarrow> getstate k m = Inr data"
  by (auto simp: pickle_def Let_def split: sum.splits)

lemma dict_obj_getstate:
  assumes "getstate k m = Inr data" and "chat m = VChat c" and "author m = VChat a"
  shows "dict_obj data
    = Some (m\<lparr>chat := VStr (k c), author := VStr (k a), p_file := None, p_path := None,
              d_file := (if d_file m = Some VNone then Some VNone else None),
              d_path := (if d_path m = Some VNone then Some VNone else None)\<rparr>)"
proof -
  from assms(1) have s: "strip_state k (instance_dict m) = Inr data"
    by (simp add: getstate_def)
  note d = strip_state_apply [OF s]
  show ?thesis
    using assms(2,3)
    by (cases m)
       (simp add: dict_obj_def d instance_dict_def str_attr_def file_attr_def opt_str_def
          opt_file_def split: option.splits)
qed

lemma pickle_chats:
  assumes "chat m = VChat c" and "author m = VChat a"
  shows "\<exists>data d1. pickle k chat_eq' d m = Inr (data, d1)"
proof -
  from getstate_chats [OF assms] obtain data where g: "getstate k m = Inr data" ..
  with assms show ?thesis
    by (simp add: pickle_def author_task_due_def py_ne_def Let_def)
qed

lemma getstate_decoded:
  assumes "getstate k m1 = Inr data" and "dict_obj data = Some obj"
  shows "initialized obj = initialized m1 \<and> p_file obj = None \<and> p_path obj = None"
proof -
  note g = getstate_media_entries [OF assms(1)]
  note s = dict_obj_media [OF assms(2)]
  from s(1) g(3) have "initialized obj = initialized m1" by simp
  moreover from s(2) g(1) have "p_file obj = None"
    by (simp add: file_attr_def split: if_splits)
  moreover from s(3) g(2) have "p_path obj = None"
    by (simp add: str_attr_def split: if_splits)
  ultimately show ?thesis by simp
qed

lemma roundtrip_media:
  assumes "initialized m1"
    and "pickle k chat_eq' d m1 = Inr (data, d1)"
    and "unpickle e w parse data cm = Inr (m2, cm2, w2)"
  shows "initialized m2 \<and> p_file m2 = None \<and> p_path m2 = None \<and> w2 = w"
proof -
  from unpickle_media [OF assms(3)] obtain obj where o: "setstate e w data = Inr (obj, w2)"
    and eq: "initialized m2 = initialized obj" "p_file m2 = p_file obj" "p_path m2 = p_path obj"
    by blast
  from setstate_dict_obj [OF o] obtain obj0 where o0: "dict_obj data = Some obj0" ..
  from getstate_decoded [OF pickle_getstate [OF assms(2)] o0] assms(1)
  have d: "initialized obj0" "p_file obj0 = None" "p_path obj0 = None" by simp_all
  from setstate_resolved [OF o0 d(1) d(3), of e w] o have "obj = obj0" "w2 = w" by simp_all
  with d eq show ?thesis by simp
qed

text \<open>
  Claim C3. Let decoding succeed on a record that holds string keys in the chat and
  author fields, split by the helper into (network id, chat id) pairs. Then
  \<^verbatim>\<open>unpickle\<close> succeeds. It asks the directory first for the chat, with no parent and
  \<^verbatim>\<open>build_dummy=True\<close>, and stores the answer in the chat field. If the author's pair
  equals the chat's pair, no second query is made and the author field holds the very
  value of the chat field, the object the one query returned. Otherwise a second query
  follows for the author, with \<^verbatim>\<open>build_dummy=True\<close>: with the chat id as parent when
  the chat returned is a group chat, with no parent when it is not (or when the directory
  returned nothing).
\<close>

theorem unpickle_resolves_refs:
  assumes "setstate e w data = Inr (obj, w1)"
    and "chat obj = VStr ckey" and "author obj = VStr akey"
    and "parse ckey = Some (c_module, c_id)" and "parse akey = Some (a_module, a_id)"
  shows "\<exists>m2 cm2. unpickle e w parse data cm = Inr (m2, cm2, w1) \<and>
    (let chat_q = \<lparr>q_module = c_module, q_uid = c_id, q_parent = None, q_build_dummy = True\<rparr>;
         c = answer cm (calls cm) chat_q;
         author_q = (\<lambda>parent. \<lparr>q_module = a_module, q_uid = a_id, q_parent = parent,
                                 q_build_dummy = True\<rparr>)
     in chat m2 = chat_val c
        \<and> m2 = obj\<lparr>chat := chat m2, author := author m2\<rparr>
        \<and> (if a_module = c_module \<and> a_id = c_id
           then author m2 = chat m2 \<and> calls cm2 = calls cm @ [chat_q]
           else if (case c of None \<Rightarrow> False | Some ch \<Rightarrow> chat_type ch = CT_Group)
           then author m2 = chat_val (answer cm (calls cm @ [chat_q]) (author_q (Some c_id)))
                \<and> calls cm2 = calls cm @ [chat_q, author_q (Some c_id)]
           else author m2 = chat_val (answer cm (calls cm @ [chat_q]) (author_q None))
                \<and> calls cm2 = calls cm @ [chat_q, author_q None]))"
  using assms
  by (simp add: unpickle_def split_key_def resolve_refs_def get_chat_def Let_def)

lemma ex_loaded_setstate:
  "setstate ex_env ex_world (instance_dict (ex_loaded\<lparr>author := v\<rparr>))
     = Inr (ex_loaded\<lparr>author := v\<rparr>, ex_world)"
  by (rule setstate_resolved [OF dict_obj_instance_dict])
     (simp_all add: ex_loaded_def ex_tgs_resolved_def)

theorem unpickle_resolves_refs_witness:
  "setstate ex_env ex_world (instance_dict ex_loaded) = Inr (ex_loaded, ex_world)
   \<and> chat_id_str_to_id ''a.1'' = Some (''a'', ''1'') \<and> chat_id_str_to_id ''a.2'' = Some (''a'', ''2'')
   \<and> (\<exists>m2 cm2. unpickle ex_env ex_world chat_id_str_to_id (instance_dict ex_loaded) ex_cm
                   = Inr (m2, cm2, ex_world)
        \<and> chat m2 = VChat \<lparr>module_id = ''a'', chat_uid = ''1'', member_id = None, is_self = False,
                            chat_type = CT_Group, oid = 0\<rparr>
        \<and> author m2 = VChat \<lparr>module_id = ''a'', chat_uid = ''2'', member_id = Some ''1'',
                              is_self = False, chat_type = CT_User, oid = 1\<rparr>
        \<and> calls cm2 = [\<lparr>q_module = ''a'', q_uid = ''1'', q_parent = None, q_build_dummy = True\<rparr>,
                        \<lparr>q_module = ''a'', q_uid = ''2'', q_parent = Some ''1'',
                         q_build_dummy = True\<rparr>])
   \<and> (\<exists>m2 cm2. unpickle ex_env ex_world chat_id_str_to_id
                     (instance_dict (ex_loaded\<lparr>author := VStr ''a.1''\<rparr>)) ex_cm
                   = Inr (m2, cm2, ex_world)
        \<and> author m2 = chat m2
        \<and> calls cm2 = [\<lparr>q_module = ''a'', q_uid = ''1'', q_parent = None, q_build_dummy = True\<rparr>])"
proof -
  have h1: "setstate ex_env ex_world (instance_dict ex_loaded) = Inr (ex_loaded, ex_world)"
    by (rule setstate_resolved [OF dict_obj_instance_dict])
       (simp_all add: ex_loaded_def ex_tgs_resolved_def)
  have h2: "chat ex_loaded = VStr ''a.1''" and h3: "author ex_loaded = VStr ''a.2''"
    by (simp_all add: ex_loaded_def)
  have h4: "chat_id_str_to_id ''a.1'' = Some (''a'', ''1'')"
    and h5: "chat_id_str_to_id ''a.2'' = Some (''a'', ''2'')"
    by (simp_all add: chat_id_str_to_id_def)
  have g1: "setstate ex_env ex_world (instance_dict (ex_loaded\<lparr>author := VStr ''a.1''\<rparr>))
      = Inr (ex_loaded\<lparr>author := VStr ''a.1''\<rparr>, ex_world)"
    by (rule ex_loaded_setstate)
  have g2: "chat (ex_loaded\<lparr>author := VStr ''a.1''\<rparr>) = VStr ''a.1''"
    and g3: "author (ex_loaded\<lparr>author := VStr ''a.1''\<rparr>) = VStr ''a.1''"
    by (simp_all add: ex_loaded_def)
  from unpickle_resolves_refs [where parse = chat_id_str_to_id and cm = ex_cm, OF h1 h2 h3 h4 h5]
  have a: "\<exists>m2 cm2. unpickle ex_env ex_world chat_id_str_to_id (instance_dict ex_loaded) ex_cm
                   = Inr (m2, cm2, ex_world)
        \<and> chat m2 = VChat \<lparr>module_id = ''a'', chat_uid = ''1'', member_id = None, is_self = False,
                            chat_type = CT_Group, oid = 0\<rparr>
        \<and> author m2 = VChat \<lparr>module_id = ''a'', chat_uid = ''2'', member_id = Some ''1'',
                              is_self = False, chat_type = CT_User, oid = 1\<rparr>
        \<and> calls cm2 = [\<lparr>q_module = ''a'', q_uid = ''1'', q_parent = None, q_build_dummy = True\<rparr>,
                        \<lparr>q_module = ''a'', q_uid = ''2'', q_parent = Some ''1'',
                         q_build_dummy = True\<rparr>]"
    by (simp add: Let_def ex_cm_def chat_val_def) blast
  from unpickle_resolves_refs [where parse = chat_id_str_to_id and cm = ex_cm, OF g1 g2 g3 h4 h4]
  have b: "\<exists>m2 cm2. unpickle ex_env ex_world chat_id_str_to_id
                     (instance_dict (ex_loaded\<lparr>author := VStr ''a.1''\<rparr>)) ex_cm
                   = Inr (m2, cm2, ex_world)
        \<and> author m2 = chat m2
        \<and> calls cm2 = [\<lparr>q_module = ''a'', q_uid = ''1'', q_parent = None, q_build_dummy = True\<rparr>]"
    by (simp add: Let_def ex_cm_def chat_val_def) blast
  from h1 h4 h5 a b show ?thesis by blast
qed

section \<open>A resolved message after a round trip\<close>

text \<open>
  Claim C10. Let a read of a media property have run resolution on a message with a
  content handle (the flag was unset, the read succeeded), let the resolved message be
  pickled and the bytes unpickled, in any environment and world. The encoded record holds
  the flag set. Decoding leaves the world as it was, and the message obtained has the flag
  set and its file and path attributes are \<^verbatim>\<open>None\<close>, so \<^verbatim>\<open>get_file()\<close> and
  \<^verbatim>\<open>get_path()\<close> on it return \<^verbatim>\<open>None\<close> in any environment and world and leave that
  world unchanged: no request and no download is made.
\<close>

theorem roundtrip_keeps_flag:
  assumes "truthy (file_id m)" and "\<not> initialized m"
    and "read_prop e g w m = Inr (v, m1, w1)"
    and "pickle k chat_eq' d m1 = Inr (data, d1)"
    and "unpickle e2 w2 parse data cm = Inr (m2, cm2, w3)"
  shows "data ''_ETMMsg__initialized'' = Some (VBool True)
    \<and> w3 = w2
    \<and> initialized m2 \<and> p_file m2 = None \<and> p_path m2 = None
    \<and> get_file e3 w4 m2 = Inr (None, m2, w4)
    \<and> get_path e3 w4 m2 = Inr (None, m2, w4)"
proof -
  from assms(2,3) have "load_file e w m = Inr (m1, w1)"
    by (cases "load_file e w m") (auto simp: read_prop_unresolved)
  then have i1: "initialized m1" by (rule load_file_initialized)
  from roundtrip_media [OF i1 assms(4,5)]
  have r: "initialized m2" "p_file m2 = None" "p_path m2 = None" "w3 = w2" by simp_all
  from getstate_media_entries(3) [OF pickle_getstate [OF assms(4)]] i1
  have "data ''_ETMMsg__initialized'' = Some (VBool True)" by simp
  with r get_file_initialized [OF r(1), of e3 w4] get_path_initialized [OF r(1), of e3 w4]
  show ?thesis by simp
qed

theorem roundtrip_keeps_flag_witness:
  "truthy (file_id ex_tgs_msg) \<and> \<not> initialized ex_tgs_msg
   \<and> read_prop ex_env Get_file ex_world ex_tgs_msg
       = Inr (R_file (Some ex_tgs_file), ex_tgs_resolved, ex_tgs_world)
   \<and> (\<exists>data d1 m2 cm2.
         pickle chat_id_to_str chat_eq ex_db ex_tgs_resolved = Inr (data, d1)
         \<and> unpickle ex_env ex_tgs_world chat_id_str_to_id data ex_cm = Inr (m2, cm2, ex_tgs_world)
         \<and> data ''_ETMMsg__initialized'' = Some (VBool True)
         \<and> initialized m2 \<and> p_file m2 = None \<and> p_path m2 = None
         \<and> file_id m2 = Some ''F1''
         \<and> get_file ex_env ex_world m2 = Inr (None, m2, ex_world)
         \<and> get_path ex_env ex_world m2 = Inr (None, m2, ex_world))"
proof -
  have h1: "truthy (file_id ex_tgs_msg)"
    by (simp add: truthy_def ex_tgs_msg_def)
  have h2: "\<not> initialized ex_tgs_msg"
    by (simp add: ex_tgs_msg_def ex_new_def ETMMsg_init_def)
  have h3: "read_prop ex_env Get_file ex_world ex_tgs_msg
       = Inr (R_file (Some ex_tgs_file), ex_tgs_resolved, ex_tgs_world)"
    by (simp add: read_prop_def ex_tgs_get_file)
  have c: "chat ex_tgs_resolved = VChat ex_chat" "author ex_tgs_resolved = VChat ex_author"
    by (simp_all add: ex_tgs_resolved_def ex_tgs_msg_def ex_new_def)
  from pickle_chats [OF c] obtain data d1
    where p: "pickle chat_id_to_str chat_eq ex_db ex_tgs_resolved = Inr (data, d1)" by blast
  have k: "chat_id_to_str ex_chat = ''a.1''" "chat_id_to_str ex_author = ''a.2''"
    by (simp_all add: chat_id_to_str_def ex_chat_def ex_author_def)
  have n: "d_file ex_tgs_resolved = None" "d_path ex_tgs_resolved = None"
    by (simp_all add: ex_tgs_resolved_def ex_tgs_msg_def ex_new_def ETMMsg_init_def)
  from dict_obj_getstate [OF pickle_getstate [OF p] c] k n
  have s: "dict_obj data = Some ex_loaded"
    by (simp add: ex_loaded_def)
  have s': "setstate ex_env ex_tgs_world data = Inr (ex_loaded, ex_tgs_world)"
    by (rule setstate_resolved [OF s]) (simp_all add: ex_loaded_def ex_tgs_resolved_def)
  obtain m2 cm2 where r: "resolve_refs ex_cm ex_loaded (''a'', ''1'') (''a'', ''2'') = (m2, cm2)"
    by (cases "resolve_refs ex_cm ex_loaded (''a'', ''1'') (''a'', ''2'')")
  have u: "unpickle ex_env ex_tgs_world chat_id_str_to_id data ex_cm = Inr (m2, cm2, ex_tgs_world)"
    by (simp add: unpickle_def s' split_key_def ex_loaded_def chat_id_str_to_id_def r [unfolded ex_loaded_def])
  from resolve_refs_media(5) [OF r] have f: "file_id m2 = Some ''F1''"
    by (simp add: ex_loaded_def ex_tgs_resolved_def ex_tgs_msg_def)
  from roundtrip_keeps_flag [OF h1 h2 h3 p u, of ex_env ex_world] h1 h2 h3 p u f
  show ?thesis by blast
qed

section \<open>The animation branch\<close>

lemma fetch_result:
  assumes "fetch e w m fid = Inr (file, m1, w1)"
  shows "\<exists>payload. download e fid = Some payload
    \<and> file = \<lparr>fname = fname file, fcontent = payload, fpos = 0, fclosed = False\<rparr>
    \<and> fname file = tmp_prefix e (tmp_count w)
         @ (case fst (ext_and_mime e m (the (bot_get_file e fid))) of None \<Rightarrow> [] | Some s \<Rightarrow> s)
    \<and> events w1 = events w @ [BotGetFile fid, Download fid]
    \<and> tmp_count w1 = Suc (tmp_count w)
    \<and> p_filename m1 = Some (py_or (p_filename m) (basename (fname file)))
    \<and> p_file m1 = Some file \<and> p_path m1 = Some (fname file)
    \<and> type_telegram m1 = type_telegram m \<and> deliver_to m1 = deliver_to m"
  using assms
  by (auto simp: fetch_def Let_def NamedTemporaryFile_def emit_def
           split: option.splits prod.splits if_splits)

lemma py_or_idem: "py_or (Some (py_or x y)) y = py_or x y"
  by (simp add: py_or_def split: option.splits)



lemmas ex_eval_defs =
  load_file_def fetch_def normalize_def convert_animation_def convert_animated_sticker_def
  ext_and_mime_def NamedTemporaryFile_def emit_def truthy_def py_or_def basename_def Let_def
  numeral_2_eq_2 ex_env_def ex_world_def ex_new_def ETMMsg_init_def


section \<open>The animated sticker branch\<close>

text \<open>
  Claim C1, amended. Let the download stage of the resolution of a vector (animated)
  sticker message succeed with the temporary file \<open>dl\<close>. Then the resolution succeeds
  whether or not the conversion does. If the conversion succeeds with \<open>gif\<close>, the MIME is
  \<^verbatim>\<open>image/gif\<close>, the filename gains \<^verbatim>\<open>.gif\<close> and the file is the new \<^verbatim>\<open>.gif\<close> file
  holding \<open>gif\<close>, rewound. If it fails, the file is the downloaded file itself, holding the
  undecoded payload, open and rewound to the start; the MIME becomes
  \<^verbatim>\<open>application/json\<close> (not the marker \<^verbatim>\<open>application/json+tgs\<close> that the classifier
  declared) and the filename gains \<^verbatim>\<open>.json\<close>.
\<close>

theorem animated_sticker_fallback:
  assumes "file_id m = Some fid" and "fid \<noteq> []"
    and "type_telegram m = Some TG_AnimatedSticker"
    and "fetch e w m fid = Inr (dl, m0, w0)"
  shows "\<exists>m1 w1. load_file e w m = Inr (m1, w1) \<and> initialized m1
    \<and> download e fid = Some (fcontent dl)
    \<and> (case convert_tgs_to_gif e (fcontent dl) of
          Some gif \<Rightarrow>
            mime m1 = Some ''image/gif''
            \<and> p_filename m1 = Some (py_or (p_filename m) (basename (fname dl)) @ ''.gif'')
            \<and> p_file m1 = Some \<lparr>fname = tmp_prefix e (Suc (tmp_count w)) @ ''.gif'',
                                 fcontent = gif, fpos = 0, fclosed = False\<rparr>
            \<and> p_path m1 = Some (tmp_prefix e (Suc (tmp_count w)) @ ''.gif'')
        | None \<Rightarrow>
            mime m1 = Some ''application/json''
            \<and> p_filename m1 = Some (py_or (p_filename m) (basename (fname dl)) @ ''.json'')
            \<and> p_file m1 = Some \<lparr>fname = fname dl, fcontent = fcontent dl, fpos = 0,
                                 fclosed = False\<rparr>
            \<and> p_path m1 = Some (fname dl))"
proof -
  from fetch_result [OF assms(4)] obtain payload where p: "download e fid = Some payload"
    and d: "dl = \<lparr>fname = fname dl, fcontent = payload, fpos = 0, fclosed = False\<rparr>"
    and tc: "tmp_count w0 = Suc (tmp_count w)"
    and fn: "p_filename m0 = Some (py_or (p_filename m) (basename (fname dl)))"
    and tt: "type_telegram m0 = type_telegram m"
    by blast
  from d have c: "fcontent dl = payload" and cl: "fclosed dl = False"
    by (metis tmpfile.select_convs(2), metis tmpfile.select_convs(4))
  have n: "normalize e w0 m0 dl = convert_animated_sticker e w0 m0 dl"
    using tt assms(3) by (simp add: normalize_def)
  have l: "load_file e w m
      = map_sum id (\<lambda>(m2, w2). (m2\<lparr>initialized := True\<rparr>, w2)) (convert_animated_sticker e w0 m0 dl)"
    using assms(1,2,4) n by (simp add: load_file_def truthy_def split: sum.splits)
  show ?thesis
  proof (cases "convert_tgs_to_gif e payload")
    case None
    have "dl\<lparr>fpos := length (fcontent dl), fpos := 0\<rparr>
        = \<lparr>fname = fname dl, fcontent = fcontent dl, fpos = 0, fclosed = False\<rparr>"
      using cl by (cases dl) simp
    with None l p c fn show ?thesis
      by (simp add: convert_animated_sticker_def Let_def NamedTemporaryFile_def py_or_idem
          split: prod.splits)
  next
    case (Some gif)
    with l p c fn tc show ?thesis
      by (simp add: convert_animated_sticker_def Let_def NamedTemporaryFile_def py_or_idem emit_def
          split: prod.splits)
  qed
qed

theorem animated_sticker_fallback_witness:
  "file_id ex_tgs_msg = Some ''F1'' \<and> type_telegram ex_tgs_msg = Some TG_AnimatedSticker
   \<and> (\<exists>m0 w0. fetch ex_env ex_world ex_tgs_msg ''F1'' = Inr (ex_tgs_file, m0, w0))
   \<and> convert_tgs_to_gif ex_env ''PAYLOAD'' = None
   \<and> (\<exists>m1 w1. load_file ex_env ex_world ex_tgs_msg = Inr (m1, w1)
        \<and> mime m1 = Some ''application/json'' \<and> p_filename m1 = Some ''tmpa.json''
        \<and> p_file m1 = Some ex_tgs_file \<and> p_path m1 = Some ''/tmp/tmpa'')
   \<and> (\<exists>m1 w1. load_file (ex_env\<lparr>convert_tgs_to_gif := \<lambda>c. Some ''GIF89a''\<rparr>) ex_world ex_tgs_msg
                   = Inr (m1, w1)
        \<and> mime m1 = Some ''image/gif'' \<and> p_filename m1 = Some ''tmpa.gif''
        \<and> p_file m1 = Some \<lparr>fname = ''/tmp/tmpaa.gif'', fcontent = ''GIF89a'', fpos = 0,
                             fclosed = False\<rparr>
        \<and> p_path m1 = Some ''/tmp/tmpaa.gif'')"
proof -
  have h1: "file_id ex_tgs_msg = Some ''F1''" and h2: "''F1'' \<noteq> []"
    and h3: "type_telegram ex_tgs_msg = Some TG_AnimatedSticker"
    and pf: "p_filename ex_tgs_msg = None"
    by (simp_all add: ex_tgs_msg_def ex_new_def ETMMsg_init_def)
  have "\<exists>m0 w0. fetch ex_env ex_world ex_tgs_msg ''F1'' = Inr (ex_tgs_file, m0, w0)"
    by (simp add: ex_eval_defs ex_tgs_msg_def ex_tgs_file_def)
  then obtain m0 w0 where f1: "fetch ex_env ex_world ex_tgs_msg ''F1'' = Inr (ex_tgs_file, m0, w0)"
    by blast
  have "\<exists>m0 w0. fetch (ex_env\<lparr>convert_tgs_to_gif := \<lambda>c. Some ''GIF89a''\<rparr>) ex_world ex_tgs_msg ''F1''
      = Inr (ex_tgs_file, m0, w0)"
    by (simp add: ex_eval_defs ex_tgs_msg_def ex_tgs_file_def)
  then obtain m0' w0'
    where f2: "fetch (ex_env\<lparr>convert_tgs_to_gif := \<lambda>c. Some ''GIF89a''\<rparr>) ex_world ex_tgs_msg ''F1''
      = Inr (ex_tgs_file, m0', w0')"
    by blast
  have e: "convert_tgs_to_gif ex_env ''PAYLOAD'' = None" "fcontent ex_tgs_file = ''PAYLOAD''"
    "fname ex_tgs_file = ''/tmp/tmpa''" "basename ''/tmp/tmpa'' = ''tmpa''"
    "tmp_prefix ex_env (Suc (tmp_count ex_world)) = ''/tmp/tmpaa''"
    "ex_tgs_file = \<lparr>fname = ''/tmp/tmpa'', fcontent = ''PAYLOAD'', fpos = 0, fclosed = False\<rparr>"
    by (simp_all add: ex_env_def ex_world_def ex_tgs_file_def basename_def)
  from animated_sticker_fallback [OF h1 h2 h3 f1] pf e
  have a: "\<exists>m1 w1. load_file ex_env ex_world ex_tgs_msg = Inr (m1, w1)
        \<and> mime m1 = Some ''application/json'' \<and> p_filename m1 = Some ''tmpa.json''
        \<and> p_file m1 = Some ex_tgs_file \<and> p_path m1 = Some ''/tmp/tmpa''"
    by (auto simp: py_or_def)
  from animated_sticker_fallback [OF h1 h2 h3 f2] pf e
  have b: "\<exists>m1 w1. load_file (ex_env\<lparr>convert_tgs_to_gif := \<lambda>c. Some ''GIF89a''\<rparr>) ex_world ex_tgs_msg
                   = Inr (m1, w1)
        \<and> mime m1 = Some ''image/gif'' \<and> p_filename m1 = Some ''tmpa.gif''
        \<and> p_file m1 = Some \<lparr>fname = ''/tmp/tmpaa.gif'', fcontent = ''GIF89a'', fpos = 0,
                             fclosed = False\<rparr>
        \<and> p_path m1 = Some ''/tmp/tmpaa.gif''"
    by (auto simp: py_or_def ex_env_def)
  from h1 h3 f1 e(1) a b show ?thesis by blast
qed

text \<open>Claim C1 as worded has the fallback MIME revert to the classifier's marker; the code
  does not: the classifier declares the marker \<^verbatim>\<open>application/json+tgs\<close> for the
  example sticker; with a converter that fails, resolution leaves the MIME
  \<^verbatim>\<open>application/json\<close>.\<close>

theorem animated_sticker_mime_counterexample:
  "put_telegram_file ex_env (\<lambda>_. TG_AnimatedSticker) ex_new ex_sticker_update = Inr ex_tgs_msg
   \<and> mime ex_tgs_msg = Some ''application/json+tgs''
   \<and> convert_tgs_to_gif ex_env ''PAYLOAD'' = None
   \<and> load_file ex_env ex_world ex_tgs_msg = Inr (ex_tgs_resolved, ex_tgs_world)
   \<and> mime ex_tgs_resolved = Some ''application/json''
   \<and> mime ex_tgs_resolved \<noteq> Some ''application/json+tgs''
   \<and> p_filename ex_tgs_resolved = Some ''tmpa.json''"
  by (simp add: ex_tgs_load)
     (simp add: put_telegram_file_def specific_media_def common_media_def Let_def
        ex_sticker_update_def ex_tgs_msg_def ex_tgs_resolved_def ex_env_def)

end
